theory Spec2Isabelle
  imports Main "HOL-Library.Sublist"
begin

section \<open>JavaScript values used by movie.js\<close>

text \<open>
  The file \<^verbatim>\<open>src/movie.js\<close> holds two variants of one Express application
  (variant A: lines 1-309, variant B: lines 310-596).  Both sit on three libraries:
  express (routing), express-validator (the \<^verbatim>\<open>body(...)\<close> chains) and mongoose
  (the \<^verbatim>\<open>Movie\<close> model).  The handlers are translated from the source; the
  library calls they make are given the meaning their documentation gives them, each
  in a definition of its own that says which call it stands for.

  Text is a \<^typ>\<open>string\<close>: the bytes of its UTF-8 form, so that a character of
  ASCII text is one element and any other character a lead byte followed by
  continuation bytes.  The strings of a JSON body may hold any characters, and the
  validators are modelled on all of them.  Query strings and paths are ASCII text:
  \<^verbatim>\<open>parseInt\<close> and the pattern language of regular expressions are modelled for
  ASCII.  A field of a JSON body is a \<open>jsval\<close>: absent (\<open>Undefined\<close>),
  \<^verbatim>\<open>null\<close>, a string or an integer-valued number.  Booleans, arrays, nested
  objects and fractional numbers are outside the model.
\<close>

datatype jsval = Undefined | Null | Str string | Num int

text \<open>An \<^verbatim>\<open>Error\<close> object: the three properties the source reads.\<close>

record js_error =
  name :: string
  message :: string
  stack :: string

text \<open>
  A \<^verbatim>\<open>Date\<close> object, as far as the source looks at it:
  \<^verbatim>\<open>new Date().getFullYear()\<close> and \<^verbatim>\<open>new Date().toISOString()\<close>.
\<close>

record js_date =
  getFullYear :: int
  toISOString :: string

text \<open>A number that may be \<^verbatim>\<open>NaN\<close>, the result type of \<^verbatim>\<open>parseInt\<close>.\<close>

datatype jsnum = NaN | Number int

subsection \<open>Characters\<close>

definition lower :: "char \<Rightarrow> char" where
  "lower c =
     (if 65 \<le> (of_char c :: nat) \<and> (of_char c :: nat) \<le> 90 then char_of ((of_char c :: nat) + 32) else c)"

definition is_letter :: "char \<Rightarrow> bool" where
  "is_letter c = ((65 \<le> (of_char c :: nat) \<and> (of_char c :: nat) \<le> 90)
     \<or> (97 \<le> (of_char c :: nat) \<and> (of_char c :: nat) \<le> 122))"

text \<open>A byte of ASCII text, and a continuation byte of a longer character.\<close>

definition is_ascii :: "char \<Rightarrow> bool" where
  "is_ascii c = ((of_char c :: nat) < 128)"

definition is_continuation :: "char \<Rightarrow> bool" where
  "is_continuation c = (128 \<le> (of_char c :: nat) \<and> (of_char c :: nat) < 192)"

subsection \<open>Decimal digits\<close>

definition is_digit :: "char \<Rightarrow> bool" where
  "is_digit c = (48 \<le> (of_char c :: nat) \<and> (of_char c :: nat) \<le> 57)"

definition digit_val :: "char \<Rightarrow> nat" where
  "digit_val c = of_char c - 48"

definition digit_char :: "nat \<Rightarrow> char" where
  "digit_char d = char_of (48 + d)"

text \<open>The value of a run of decimal digits, most significant first.\<close>

definition dec_value :: "string \<Rightarrow> nat" where
  "dec_value s = foldl (\<lambda>a c. 10 * a + digit_val c) 0 s"

fun digits_of :: "nat \<Rightarrow> string" where
  "digits_of n = (if n < 10 then [digit_char n] else digits_of (n div 10) @ [digit_char (n mod 10)])"

declare digits_of.simps [simp del]

text \<open>
  \<^verbatim>\<open>String(n)\<close> for an integer \<open>n\<close>: the decimal digits, with a minus sign
  when negative (JavaScript switches to exponent notation from \<open>10^21\<close> on; such
  numbers are not meant by \<open>Num\<close>).
\<close>

definition show_int :: "int \<Rightarrow> string" where
  "show_int n = (if n < 0 then CHR ''-'' # digits_of (nat (- n)) else digits_of (nat n))"

subsection \<open>parseInt\<close>

text \<open>
  \<^verbatim>\<open>parseInt(s)\<close> with no radix: leading white space is skipped, a sign is read,
  a \<^verbatim>\<open>0x\<close> prefix selects base 16, then the longest run of digits is read and the
  rest of the string is ignored.  No digit at all gives \<^verbatim>\<open>NaN\<close>.
\<close>

definition is_space :: "char \<Rightarrow> bool" where
  "is_space c = ((of_char c :: nat) \<in> {9, 10, 11, 12, 13, 32})"

definition is_hex :: "char \<Rightarrow> bool" where
  "is_hex c = (is_digit c \<or> (65 \<le> (of_char c :: nat) \<and> (of_char c :: nat) \<le> 70)
     \<or> (97 \<le> (of_char c :: nat) \<and> (of_char c :: nat) \<le> 102))"

definition hex_val :: "char \<Rightarrow> nat" where
  "hex_val c = (if is_digit c then of_char c - 48
     else if (of_char c :: nat) \<le> 70 then of_char c - 55 else of_char c - 87)"

definition hex_value :: "string \<Rightarrow> nat" where
  "hex_value s = foldl (\<lambda>a c. 16 * a + hex_val c) 0 s"

definition parse_magnitude :: "string \<Rightarrow> nat option" where
  "parse_magnitude s =
     (case s of
        c # x # r \<Rightarrow>
          if c = CHR ''0'' \<and> (x = CHR ''x'' \<or> x = CHR ''X'') then
            (let ds = takeWhile is_hex r in if ds = [] then None else Some (hex_value ds))
          else (let ds = takeWhile is_digit s in if ds = [] then None else Some (dec_value ds))
      | _ \<Rightarrow> (let ds = takeWhile is_digit s in if ds = [] then None else Some (dec_value ds)))"

definition parseInt :: "string \<Rightarrow> jsnum" where
  "parseInt s =
     (let t = dropWhile is_space s;
          neg = (case t of [] \<Rightarrow> False | c # _ \<Rightarrow> c = CHR ''-'');
          u = (case t of [] \<Rightarrow> [] | c # r \<Rightarrow> if c = CHR ''-'' \<or> c = CHR ''+'' then r else t)
      in case parse_magnitude u of
           None \<Rightarrow> NaN
         | Some m \<Rightarrow> Number (if neg then - int m else int m))"

section \<open>express-validator\<close>

subsection \<open>The validators of validator.js that the chains use\<close>

text \<open>
  Every standard validator is run on the string form of the field's value
  (express-validator's \<^verbatim>\<open>toString\<close>): \<^verbatim>\<open>undefined\<close> and \<^verbatim>\<open>null\<close>
  become the empty string.
\<close>

fun toString :: "jsval \<Rightarrow> string" where
  "toString Undefined = []"
| "toString Null = []"
| "toString (Str s) = s"
| "toString (Num n) = show_int n"

text \<open>
  \<^verbatim>\<open>isInt(str, {min, max})\<close>: the string matches \<^verbatim>\<open>/^[-+]?[0-9]+$/\<close> and its
  numeric value lies between \<open>min\<close> and \<open>max\<close>.
\<close>

definition unsigned_part :: "string \<Rightarrow> string" where
  "unsigned_part s =
     (case s of [] \<Rightarrow> [] | c # r \<Rightarrow> if c = CHR ''-'' \<or> c = CHR ''+'' then r else s)"

definition int_regex :: "string \<Rightarrow> bool" where
  "int_regex s = (unsigned_part s \<noteq> [] \<and> list_all is_digit (unsigned_part s))"

definition int_value :: "string \<Rightarrow> int" where
  "int_value s =
     (case s of [] \<Rightarrow> 0
      | c # r \<Rightarrow> if c = CHR ''-'' then - int (dec_value r) else int (dec_value (unsigned_part s)))"

definition isInt :: "string \<Rightarrow> int \<Rightarrow> int \<Rightarrow> bool" where
  "isInt s lo hi = (int_regex s \<and> lo \<le> int_value s \<and> int_value s \<le> hi)"

text \<open>
  \<^verbatim>\<open>isLength\<close> compares with the length validator.js computes: the number of
  UTF-16 code units, less one for every surrogate pair and less one for every variation
  selector U+FE0E or U+FE0F.  That is the number of characters of the string that are
  no variation selectors: the bytes that are no continuation bytes, less the
  selectors, which UTF-8 writes \<^verbatim>\<open>EF B8 8E\<close> and \<^verbatim>\<open>EF B8 8F\<close>.
\<close>

fun selectors :: "string \<Rightarrow> nat" where
  "selectors (a # b # c # s) =
     (if a = CHR 0xEF \<and> b = CHR 0xB8 \<and> (c = CHR 0x8E \<or> c = CHR 0x8F) then Suc (selectors s)
      else selectors (b # c # s))"
| "selectors s = 0"

definition isLength_count :: "string \<Rightarrow> nat" where
  "isLength_count s = length (filter (\<lambda>c. \<not> is_continuation c) s) - selectors s"

text \<open>
  The validators a chain can hold.  Everything that validates takes the function that
  decides \<^verbatim>\<open>isURL\<close> as its parameter \<open>isURL\<close>; what validator.js puts there is
  \<open>validator_isURL\<close> below.
\<close>

datatype validator =
    NotEmpty
  | IsLength nat
  | IsInt int int
  | IsIn "string list"
  | IsURL

fun passes :: "(string \<Rightarrow> bool) \<Rightarrow> validator \<Rightarrow> string \<Rightarrow> bool" where
  "passes isURL NotEmpty s = (s \<noteq> [])"
| "passes isURL (IsLength mn) s = (mn \<le> isLength_count s)"
| "passes isURL (IsInt lo hi) s = isInt s lo hi"
| "passes isURL (IsIn allowed) s = (s \<in> set allowed)"
| "passes isURL IsURL s = isURL s"

subsection \<open>Validation chains\<close>

text \<open>
  A chain \<^verbatim>\<open>body(field).v1().withMessage(m1).v2().withMessage(m2)\<close> is the field's
  name and its items in order.  \<^verbatim>\<open>.optional()\<close> marks the whole chain: when the
  field is \<^verbatim>\<open>undefined\<close> nothing is checked.  Otherwise every validator runs (there
  is no \<^verbatim>\<open>.bail()\<close> in the source) and each failure adds one error object.
\<close>

datatype chain_item = Check validator string | Optional

type_synonym chain = "string \<times> chain_item list"

type_synonym payload = "string \<Rightarrow> jsval"

record violation =
  param :: string
  msg :: string
  val :: jsval

fun runItem :: "(string \<Rightarrow> bool) \<Rightarrow> string \<Rightarrow> jsval \<Rightarrow> chain_item \<Rightarrow> violation list" where
  "runItem isURL field v Optional = []"
| "runItem isURL field v (Check vd m) =
     (if passes isURL vd (toString v) then [] else [\<lparr>param = field, msg = m, val = v\<rparr>])"

fun runChain :: "(string \<Rightarrow> bool) \<Rightarrow> payload \<Rightarrow> chain \<Rightarrow> violation list" where
  "runChain isURL p (field, items) =
     (if Optional \<in> set items \<and> p field = Undefined then []
      else concat (map (runItem isURL field (p field)) items))"

text \<open>\<^verbatim>\<open>validationResult(req).array()\<close> after the chains of a route have run.\<close>

definition validationResult :: "(string \<Rightarrow> bool) \<Rightarrow> chain list \<Rightarrow> payload \<Rightarrow> violation list" where
  "validationResult isURL rules p = concat (map (runChain isURL p) rules)"

subsection \<open>The rule sets of the four write routes\<close>

text \<open>
  The arrays are built once, when \<^verbatim>\<open>app.post\<close> and \<^verbatim>\<open>app.put\<close> are called: the
  date \<open>boot\<close> is the value of \<^verbatim>\<open>new Date()\<close> at that moment.
\<close>

definition genres :: "string list" where
  "genres = [''Action'', ''Comedy'', ''Drama'', ''Horror'', ''Sci-Fi'', ''Romance'', ''Other'']"

definition createRules_A :: "js_date \<Rightarrow> chain list" where
  "createRules_A boot =
    [(''title'', [Check NotEmpty ''Title is required'',
                  Check (IsLength 1) ''Title must be at least 1 character'']),
     (''director'', [Check NotEmpty ''Director is required'']),
     (''releaseYear'', [Check NotEmpty ''Release year is required'',
                        Check (IsInt 1888 (getFullYear boot)) ''Release year must be valid'']),
     (''genre'', [Check NotEmpty ''Genre is required'',
                  Check (IsIn genres) ''Invalid genre'']),
     (''image'', [Optional, Check IsURL ''Image must be a valid URL''])]"

definition updateRules_A :: "js_date \<Rightarrow> chain list" where
  "updateRules_A boot =
    [(''title'', [Check NotEmpty ''Title is required'',
                  Check (IsLength 1) ''Title must be at least 1 character'']),
     (''director'', [Check NotEmpty ''Director is required'']),
     (''releaseYear'', [Check NotEmpty ''Release year is required'',
                        Check (IsInt 1888 (getFullYear boot)) ''Release year must be valid'']),
     (''genre'', [Check NotEmpty ''Genre is required'',
                  Check (IsIn genres) ''Invalid genre'']),
     (''image'', [Optional, Check IsURL ''Image must be a valid URL''])]"

definition createRules_B :: "js_date \<Rightarrow> chain list" where
  "createRules_B boot =
    [(''title'', [Check NotEmpty ''Title is required'']),
     (''director'', [Check NotEmpty ''Director is required'']),
     (''releaseYear'', [Check (IsInt 1888 (getFullYear boot)) ''Release year must be valid'']),
     (''genre'', [Check (IsIn genres) ''Invalid genre'']),
     (''image'', [Optional, Check IsURL ''Image must be a valid URL''])]"

definition updateRules_B :: "js_date \<Rightarrow> chain list" where
  "updateRules_B boot =
    [(''title'', [Check NotEmpty ''Title is required'']),
     (''director'', [Check NotEmpty ''Director is required'']),
     (''releaseYear'', [Check (IsInt 1888 (getFullYear boot)) ''Release year must be valid'']),
     (''genre'', [Check (IsIn genres) ''Invalid genre'']),
     (''image'', [Optional, Check IsURL ''Image must be a valid URL''])]"

subsection \<open>isURL\<close>

text \<open>
  \<^verbatim>\<open>isURL(str)\<close> of validator.js with its default options (no scheme required,
  a top-level domain required).  The model decides the strings whose answer follows
  from the shape alone:
  \<^item> the empty string, a string with white space or an angle bracket, and a single
    word of letters and digits (a host without a top-level domain) are refused;
  \<^item> a host name of two or more labels of letters, digits and inner hyphens whose last
    label is two or more letters, with or without one of the schemes \<^verbatim>\<open>http\<close>,
    \<^verbatim>\<open>https\<close>, \<^verbatim>\<open>ftp\<close> before it and with or without a path of letters, digits,
    dots, hyphens and slashes after it, is accepted when shorter than 2083 characters.
  Every other string (ports, user names, queries, fragments, addresses, other schemes)
  is handed to the parameter \<open>rest\<close>, which stands for the rest of the function.
\<close>

definition is_alnum :: "char \<Rightarrow> bool" where
  "is_alnum c = (is_digit c \<or> is_letter c)"

definition url_blank :: "char \<Rightarrow> bool" where
  "url_blank c = (is_space c \<or> c = CHR ''<'' \<or> c = CHR ''>'')"

fun split_on :: "char \<Rightarrow> string \<Rightarrow> string list" where
  "split_on d [] = [[]]"
| "split_on d (c # s) =
     (if c = d then [] # split_on d s
      else (case split_on d s of [] \<Rightarrow> [[c]] | x # xs \<Rightarrow> (c # x) # xs))"

definition label_ok :: "string \<Rightarrow> bool" where
  "label_ok l =
     (l \<noteq> [] \<and> length l \<le> 63 \<and> list_all (\<lambda>c. is_alnum c \<or> c = CHR ''-'') l \<and>
      hd l \<noteq> CHR ''-'' \<and> last l \<noteq> CHR ''-'')"

definition tld_ok :: "string \<Rightarrow> bool" where
  "tld_ok l = (2 \<le> length l \<and> list_all is_letter l)"

definition simple_host :: "string \<Rightarrow> bool" where
  "simple_host h =
     (let ls = split_on CHR ''.'' h in 2 \<le> length ls \<and> list_all label_ok ls \<and> tld_ok (last ls))"

definition strip_scheme :: "string \<Rightarrow> string option" where
  "strip_scheme s =
     (if map lower (take 7 s) = ''http://'' then Some (drop 7 s)
      else if map lower (take 8 s) = ''https://'' then Some (drop 8 s)
      else if map lower (take 6 s) = ''ftp://'' then Some (drop 6 s)
      else if CHR '':'' \<in> set s then None
      else Some s)"

definition simple_url :: "string \<Rightarrow> bool" where
  "simple_url s =
     (case strip_scheme s of
        None \<Rightarrow> False
      | Some r \<Rightarrow>
          (case split_on CHR ''/'' r of
             [] \<Rightarrow> False
           | h # ps \<Rightarrow>
               simple_host h \<and>
               list_all (list_all (\<lambda>c. is_alnum c \<or> c = CHR ''.'' \<or> c = CHR ''-'')) ps))"

definition validator_isURL :: "(string \<Rightarrow> bool) \<Rightarrow> string \<Rightarrow> bool" where
  "validator_isURL rest s =
     (if s = [] then False
      else if list_ex url_blank s then False
      else if list_all is_alnum s then False
      else if simple_url s \<and> length s < 2083 then True
      else rest s)"

section \<open>Regular expressions built from a query string\<close>

text \<open>
  \<^verbatim>\<open>new RegExp(title, 'i')\<close> reads the query string, ASCII text, as a pattern.  The model
  evaluates the patterns made of ordinary characters and the wildcard \<^verbatim>\<open>.\<close>;
  a pattern that holds any other syntax character is handed to the parameter
  \<open>engine\<close>, which stands for the rest of the regular-expression language and
  answers with the compiled test or with the \<^verbatim>\<open>SyntaxError\<close> the constructor
  throws.  An ordinary character matches itself in either case, the wildcard every
  character but a line terminator (one element of the subject: the wildcard is exact on
  ASCII subjects).
\<close>

type_synonym regexp = "string \<Rightarrow> bool"

type_synonym regex_engine = "string \<Rightarrow> js_error + regexp"

definition syntax_char :: "char \<Rightarrow> bool" where
  "syntax_char c = (c \<in> set ''^$.*+?()[]{}|'' \<or> c = CHR 0x5C)"

datatype atom = Lit char | Dot

text \<open>Under the flag \<^verbatim>\<open>i\<close> two characters match when their upper-case forms agree.\<close>

definition canonicalize :: "char \<Rightarrow> char" where
  "canonicalize c =
     (if 97 \<le> (of_char c :: nat) \<and> (of_char c :: nat) \<le> 122 then char_of ((of_char c :: nat) - 32) else c)"

fun atom_matches :: "atom \<Rightarrow> char \<Rightarrow> bool" where
  "atom_matches (Lit a) c = (canonicalize a = canonicalize c)"
| "atom_matches Dot c = (c \<noteq> CHR 0x0A \<and> c \<noteq> CHR 0x0D)"

fun match_here :: "atom list \<Rightarrow> string \<Rightarrow> bool" where
  "match_here [] s = True"
| "match_here (a # as) [] = False"
| "match_here (a # as) (c # s) = (atom_matches a c \<and> match_here as s)"

text \<open>An unanchored pattern is tried at every position of the subject.\<close>

fun rx_test :: "atom list \<Rightarrow> string \<Rightarrow> bool" where
  "rx_test as [] = match_here as []"
| "rx_test as (c # s) = (match_here as (c # s) \<or> rx_test as s)"

definition to_atom :: "char \<Rightarrow> atom" where
  "to_atom c = (if c = CHR ''.'' then Dot else Lit c)"

definition plain_pattern :: "string \<Rightarrow> bool" where
  "plain_pattern pat = list_all (\<lambda>c. c = CHR ''.'' \<or> \<not> syntax_char c) pat"

definition RegExp_i :: "regex_engine \<Rightarrow> string \<Rightarrow> js_error + regexp" where
  "RegExp_i engine pat =
     (if plain_pattern pat then Inr (rx_test (map to_atom pat)) else engine pat)"

section \<open>The Movie model (mongoose)\<close>

text \<open>
  A stored document of the schema of lines 67-73: every path is optional, \<open>oid\<close> is
  the document's \<^verbatim>\<open>_id\<close> in its 24-digit lower-case hexadecimal form.  The
  collection is the list of its documents in the order the database returns them.
\<close>

record movie =
  oid :: string
  title :: "string option"
  director :: "string option"
  releaseYear :: "int option"
  genre :: "string option"
  image' :: "string option"

text \<open>
  The errors mongoose raises.  The message is abridged (mongoose adds the type of the
  value, the path and the model) and the stack holds its first line only; where a
  statement shows such a message, it shows the abridged one.
\<close>

definition CastError :: "string \<Rightarrow> string \<Rightarrow> js_error" where
  "CastError kind v =
     \<lparr>name = ''CastError'',
      message = ''Cast to '' @ kind @ '' failed for value '' @ v,
      stack = ''CastError: Cast to '' @ kind @ '' failed for value '' @ v\<rparr>"

definition DuplicateKey :: "string \<Rightarrow> js_error" where
  "DuplicateKey i =
     \<lparr>name = ''MongoServerError'',
      message = ''E11000 duplicate key error: _id '' @ i,
      stack = ''MongoServerError: E11000 duplicate key error: _id '' @ i\<rparr>"

subsection \<open>Casting\<close>

text \<open>
  An \<^verbatim>\<open>ObjectId\<close> is written as 24 hexadecimal digits, in either case; anything
  else fails the cast (the current driver; older ones also took any string of 12 bytes).
\<close>

definition isValidObjectId :: "string \<Rightarrow> bool" where
  "isValidObjectId s = (length s = 24 \<and> list_all is_hex s)"

definition castObjectId :: "string \<Rightarrow> js_error + string" where
  "castObjectId s = (if isValidObjectId s then Inr (map lower s) else Inl (CastError ''ObjectId'' s))"

fun castString :: "jsval \<Rightarrow> string option" where
  "castString Undefined = None"
| "castString Null = None"
| "castString (Str s) = Some s"
| "castString (Num n) = Some (show_int n)"

text \<open>
  The cast to \<^verbatim>\<open>Number\<close>.  \<^verbatim>\<open>NaN\<close> is refused (mongoose asserts
  \<^verbatim>\<open>!isNaN(val)\<close>).  Of the strings, the empty one becomes \<^verbatim>\<open>null\<close> and a
  signed run of digits its value; the other spellings JavaScript reads as numbers
  (fractions, exponents, hexadecimal, surrounding blanks) never reach the cast, since
  every write route has run \<open>IsInt\<close> on the field before, and are refused here.
\<close>

fun castNumber :: "jsval \<Rightarrow> js_error + int option" where
  "castNumber Undefined = Inr None"
| "castNumber Null = Inr None"
| "castNumber (Num n) = Inr (Some n)"
| "castNumber (Str s) =
     (if s = [] then Inr None
      else if int_regex s then Inr (Some (int_value s))
      else Inl (CastError ''Number'' s))"

subsection \<open>Queries\<close>

text \<open>The filter object of the list route: each key is present or not.\<close>

record mfilter =
  f_title :: "regexp option"
  f_releaseYear :: "jsnum option"
  f_genre :: "string option"

definition matches_title :: "regexp option \<Rightarrow> movie \<Rightarrow> bool" where
  "matches_title c m =
     (case c of None \<Rightarrow> True
      | Some rx \<Rightarrow> (case title m of None \<Rightarrow> False | Some t \<Rightarrow> rx t))"

definition matches_year :: "jsnum option \<Rightarrow> movie \<Rightarrow> bool" where
  "matches_year c m =
     (case c of None \<Rightarrow> True
      | Some NaN \<Rightarrow> False
      | Some (Number n) \<Rightarrow> releaseYear m = Some n)"

definition matches_genre :: "string option \<Rightarrow> movie \<Rightarrow> bool" where
  "matches_genre c m = (case c of None \<Rightarrow> True | Some g \<Rightarrow> genre m = Some g)"

text \<open>A document is selected when it meets every condition the filter holds.\<close>

definition matches :: "mfilter \<Rightarrow> movie \<Rightarrow> bool" where
  "matches f m =
     (matches_title (f_title f) m \<and> matches_year (f_releaseYear f) m \<and> matches_genre (f_genre f) m)"

text \<open>
  Each call of the model takes \<open>fault\<close>: \<open>Some e\<close> when the database fails this
  call with the error \<open>e\<close> (connection lost, time-out), \<open>None\<close> when it answers.
  The result is the settled promise: \<open>Inl\<close> a rejection, \<open>Inr\<close> the value.

  \<^verbatim>\<open>Movie.find(filter)\<close>: the filter is cast first, then the query is sent.
\<close>

definition Movie_find :: "js_error option \<Rightarrow> mfilter \<Rightarrow> movie list \<Rightarrow> js_error + movie list" where
  "Movie_find fault f ms =
     (if f_releaseYear f = Some NaN then Inl (CastError ''Number'' ''NaN'')
      else case fault of Some e \<Rightarrow> Inl e | None \<Rightarrow> Inr (filter (matches f) ms))"

text \<open>
  \<^verbatim>\<open>new Movie(req.body)\<close>: the body is cast along the schema and the document
  gets the identifier \<open>i\<close> that mongoose generates for it.  A cast error is kept
  in the document and raised by \<^verbatim>\<open>save()\<close>.
\<close>

definition Movie_new :: "string \<Rightarrow> payload \<Rightarrow> js_error + movie" where
  "Movie_new i p =
     (case castNumber (p ''releaseYear'') of
        Inl e \<Rightarrow> Inl e
      | Inr y \<Rightarrow>
          Inr \<lparr>oid = i,
               title = castString (p ''title''),
               director = castString (p ''director''),
               releaseYear = y,
               genre = castString (p ''genre''),
               image' = castString (p ''image'')\<rparr>)"

text \<open>
  \<^verbatim>\<open>movie.save()\<close>: inserts the document; the database refuses a second document
  with the same \<^verbatim>\<open>_id\<close>.
\<close>

definition Movie_save :: "js_error option \<Rightarrow> js_error + movie \<Rightarrow> movie list \<Rightarrow> (js_error + movie) \<times> movie list" where
  "Movie_save fault d ms =
     (case d of
        Inl e \<Rightarrow> (Inl e, ms)
      | Inr m \<Rightarrow>
          (case fault of
             Some e \<Rightarrow> (Inl e, ms)
           | None \<Rightarrow>
               if oid m \<in> set (map oid ms) then (Inl (DuplicateKey (oid m)), ms)
               else (Inr m, ms @ [m])))"

text \<open>The first document with a given identifier, as \<^verbatim>\<open>findOne\<close> finds it.\<close>

definition findById :: "string \<Rightarrow> movie list \<Rightarrow> movie option" where
  "findById i ms = find (\<lambda>m. oid m = i) ms"

text \<open>
  The update document of \<^verbatim>\<open>findByIdAndUpdate(id, req.body)\<close>: every path the body
  holds is set, the others are left as they are.
\<close>

definition set_string :: "jsval \<Rightarrow> string option \<Rightarrow> string option" where
  "set_string v old = (if v = Undefined then old else castString v)"

definition castUpdate :: "payload \<Rightarrow> js_error + (movie \<Rightarrow> movie)" where
  "castUpdate p =
     (case castNumber (p ''releaseYear'') of
        Inl e \<Rightarrow> Inl e
      | Inr y \<Rightarrow>
          Inr (\<lambda>m. m\<lparr>title := set_string (p ''title'') (title m),
                      director := set_string (p ''director'') (director m),
                      releaseYear := (if p ''releaseYear'' = Undefined then releaseYear m else y),
                      genre := set_string (p ''genre'') (genre m),
                      image' := set_string (p ''image'') (image' m)\<rparr>))"

fun replace_first :: "string \<Rightarrow> movie \<Rightarrow> movie list \<Rightarrow> movie list" where
  "replace_first i m' [] = []"
| "replace_first i m' (m # ms) = (if oid m = i then m' # ms else m # replace_first i m' ms)"

text \<open>
  \<^verbatim>\<open>Movie.findByIdAndUpdate(id, req.body, { new: true })\<close>: resolves to the updated
  document, or to \<^verbatim>\<open>null\<close> (\<open>None\<close>) when no document has the identifier.
\<close>

definition Movie_findByIdAndUpdate ::
  "js_error option \<Rightarrow> string \<Rightarrow> payload \<Rightarrow> movie list \<Rightarrow> (js_error + movie option) \<times> movie list" where
  "Movie_findByIdAndUpdate fault i p ms =
     (case castObjectId i of
        Inl e \<Rightarrow> (Inl e, ms)
      | Inr k \<Rightarrow>
          (case castUpdate p of
             Inl e \<Rightarrow> (Inl e, ms)
           | Inr upd \<Rightarrow>
               (case fault of
                  Some e \<Rightarrow> (Inl e, ms)
                | None \<Rightarrow>
                    (case findById k ms of
                       None \<Rightarrow> (Inr None, ms)
                     | Some m \<Rightarrow> (Inr (Some (upd m)), replace_first k (upd m) ms)))))"

fun remove_first :: "string \<Rightarrow> movie list \<Rightarrow> movie list" where
  "remove_first i [] = []"
| "remove_first i (m # ms) = (if oid m = i then ms else m # remove_first i ms)"

text \<open>
  \<^verbatim>\<open>Movie.findByIdAndDelete(id)\<close>: resolves to the deleted document, or to
  \<^verbatim>\<open>null\<close> when no document has the identifier.
\<close>

definition Movie_findByIdAndDelete ::
  "js_error option \<Rightarrow> string \<Rightarrow> movie list \<Rightarrow> (js_error + movie option) \<times> movie list" where
  "Movie_findByIdAndDelete fault i ms =
     (case castObjectId i of
        Inl e \<Rightarrow> (Inl e, ms)
      | Inr k \<Rightarrow>
          (case fault of
             Some e \<Rightarrow> (Inl e, ms)
           | None \<Rightarrow>
               (case findById k ms of
                  None \<Rightarrow> (Inr None, ms)
                | Some m \<Rightarrow> (Inr (Some m), remove_first k ms))))"

section \<open>The route handlers\<close>

text \<open>
  What a handler sends: the status and the body.  \<open>ErrorObj e\<close> is the JSON object
  \<^verbatim>\<open>{error: e}\<close>, \<open>ErrorMessage e m\<close> is \<^verbatim>\<open>{error: e, message: m}\<close>,
  \<open>Message m\<close> is \<^verbatim>\<open>{message: m}\<close>, \<open>Errors vs\<close> is \<^verbatim>\<open>{errors: vs}\<close>.
\<close>

datatype content =
    Text string
  | Movies "movie list"
  | MovieDoc movie
  | Errors "violation list"
  | ErrorObj string
  | ErrorMessage string string
  | Message string
  | SwaggerUI

record response =
  status :: nat
  content :: content

text \<open>
  How an \<^verbatim>\<open>async\<close> handler ends: it has sent a response, it has called
  \<^verbatim>\<open>next(err)\<close>, or its promise is rejected with an error nothing in the handler
  catches.
\<close>

datatype outcome = Responded response | Forwarded js_error | Uncaught js_error

type_synonym query = "string \<Rightarrow> string option"

subsection \<open>GET /api/movies\<close>

text \<open>
  Lines 105-109 and 407-411: the filter is built key by key.  \<^verbatim>\<open>if (x)\<close> on a
  query parameter is false when it is absent and when it is the empty string.
\<close>

definition buildFilter :: "regex_engine \<Rightarrow> query \<Rightarrow> js_error + mfilter" where
  "buildFilter engine q =
     (case (case q ''title'' of
              None \<Rightarrow> Inr None
            | Some t \<Rightarrow> if t = [] then Inr None else map_sum id Some (RegExp_i engine t)) of
        Inl e \<Rightarrow> Inl e
      | Inr rx \<Rightarrow>
          Inr \<lparr>f_title = rx,
               f_releaseYear =
                 (case q ''releaseYear'' of
                    None \<Rightarrow> None
                  | Some y \<Rightarrow> if y = [] then None else Some (parseInt y)),
               f_genre =
                 (case q ''genre'' of
                    None \<Rightarrow> None
                  | Some g \<Rightarrow> if g = [] then None else Some g)\<rparr>)"

text \<open>The body of the \<^verbatim>\<open>try\<close> block, the same in both variants.\<close>

definition listMovies_try :: "regex_engine \<Rightarrow> js_error option \<Rightarrow> query \<Rightarrow> movie list \<Rightarrow> js_error + response" where
  "listMovies_try engine fault q ms =
     (case buildFilter engine q of
        Inl e \<Rightarrow> Inl e
      | Inr f \<Rightarrow>
          (case Movie_find fault f ms of
             Inl e \<Rightarrow> Inl e
           | Inr found \<Rightarrow> Inr \<lparr>status = 200, content = Movies found\<rparr>))"

definition listMovies_A :: "regex_engine \<Rightarrow> js_error option \<Rightarrow> query \<Rightarrow> movie list \<Rightarrow> outcome" where
  "listMovies_A engine fault q ms =
     (case listMovies_try engine fault q ms of
        Inl err \<Rightarrow> Responded \<lparr>status = 500, content = ErrorObj ''Server Error''\<rparr>
      | Inr res \<Rightarrow> Responded res)"

definition listMovies_B :: "regex_engine \<Rightarrow> js_error option \<Rightarrow> query \<Rightarrow> movie list \<Rightarrow> outcome" where
  "listMovies_B engine fault q ms =
     (case listMovies_try engine fault q ms of
        Inl err \<Rightarrow> Forwarded err
      | Inr res \<Rightarrow> Responded res)"

subsection \<open>POST /api/movies\<close>

text \<open>
  Variant A (lines 177-187) awaits \<^verbatim>\<open>movie.save()\<close> outside any \<^verbatim>\<open>try\<close>;
  variant B (lines 465-478) forwards the rejection.  \<open>i\<close> is the identifier the
  new document gets.
\<close>

definition createMovie_A ::
  "(string \<Rightarrow> bool) \<Rightarrow> js_date \<Rightarrow> js_error option \<Rightarrow> string \<Rightarrow> payload \<Rightarrow> movie list \<Rightarrow> outcome \<times> movie list" where
  "createMovie_A isURL boot fault i p ms =
     (let errors = validationResult isURL (createRules_A boot) p in
      if errors \<noteq> [] then (Responded \<lparr>status = 400, content = Errors errors\<rparr>, ms)
      else
        (case Movie_save fault (Movie_new i p) ms of
           (Inl err, ms') \<Rightarrow> (Uncaught err, ms')
         | (Inr m, ms') \<Rightarrow> (Responded \<lparr>status = 201, content = MovieDoc m\<rparr>, ms')))"

definition createMovie_B ::
  "(string \<Rightarrow> bool) \<Rightarrow> js_date \<Rightarrow> js_error option \<Rightarrow> string \<Rightarrow> payload \<Rightarrow> movie list \<Rightarrow> outcome \<times> movie list" where
  "createMovie_B isURL boot fault i p ms =
     (let errors = validationResult isURL (createRules_B boot) p in
      if errors \<noteq> [] then (Responded \<lparr>status = 400, content = Errors errors\<rparr>, ms)
      else
        (case Movie_save fault (Movie_new i p) ms of
           (Inl err, ms') \<Rightarrow> (Forwarded err, ms')
         | (Inr m, ms') \<Rightarrow> (Responded \<lparr>status = 201, content = MovieDoc m\<rparr>, ms')))"

subsection \<open>PUT /api/movies/:id\<close>

definition updateMovie_A ::
  "(string \<Rightarrow> bool) \<Rightarrow> js_date \<Rightarrow> js_error option \<Rightarrow> string \<Rightarrow> payload \<Rightarrow> movie list \<Rightarrow> outcome \<times> movie list" where
  "updateMovie_A isURL boot fault i p ms =
     (let errors = validationResult isURL (updateRules_A boot) p in
      if errors \<noteq> [] then (Responded \<lparr>status = 400, content = Errors errors\<rparr>, ms)
      else
        (case Movie_findByIdAndUpdate fault i p ms of
           (Inl err, ms') \<Rightarrow> (Responded \<lparr>status = 500, content = ErrorObj ''Server error''\<rparr>, ms')
         | (Inr None, ms') \<Rightarrow> (Responded \<lparr>status = 404, content = ErrorObj ''Movie not found''\<rparr>, ms')
         | (Inr (Some m), ms') \<Rightarrow> (Responded \<lparr>status = 200, content = MovieDoc m\<rparr>, ms')))"

definition updateMovie_B ::
  "(string \<Rightarrow> bool) \<Rightarrow> js_date \<Rightarrow> js_error option \<Rightarrow> string \<Rightarrow> payload \<Rightarrow> movie list \<Rightarrow> outcome \<times> movie list" where
  "updateMovie_B isURL boot fault i p ms =
     (let errors = validationResult isURL (updateRules_B boot) p in
      if errors \<noteq> [] then (Responded \<lparr>status = 400, content = Errors errors\<rparr>, ms)
      else
        (case Movie_findByIdAndUpdate fault i p ms of
           (Inl err, ms') \<Rightarrow> (Forwarded err, ms')
         | (Inr None, ms') \<Rightarrow> (Responded \<lparr>status = 404, content = ErrorObj ''Movie not found''\<rparr>, ms')
         | (Inr (Some m), ms') \<Rightarrow> (Responded \<lparr>status = 200, content = MovieDoc m\<rparr>, ms')))"

subsection \<open>DELETE /api/movies/:id\<close>

definition deleteMovie_A :: "js_error option \<Rightarrow> string \<Rightarrow> movie list \<Rightarrow> outcome \<times> movie list" where
  "deleteMovie_A fault i ms =
     (case Movie_findByIdAndDelete fault i ms of
        (Inl err, ms') \<Rightarrow> (Responded \<lparr>status = 400, content = Text ''Invalid ID''\<rparr>, ms')
      | (Inr None, ms') \<Rightarrow> (Responded \<lparr>status = 404, content = Text ''Movie not found''\<rparr>, ms')
      | (Inr (Some m), ms') \<Rightarrow> (Responded \<lparr>status = 200, content = Text ''Movie deleted''\<rparr>, ms'))"

definition deleteMovie_B :: "js_error option \<Rightarrow> string \<Rightarrow> movie list \<Rightarrow> outcome \<times> movie list" where
  "deleteMovie_B fault i ms =
     (case Movie_findByIdAndDelete fault i ms of
        (Inl err, ms') \<Rightarrow> (Forwarded err, ms')
      | (Inr None, ms') \<Rightarrow> (Responded \<lparr>status = 404, content = ErrorObj ''Movie not found''\<rparr>, ms')
      | (Inr (Some m), ms') \<Rightarrow> (Responded \<lparr>status = 200, content = Message ''Movie deleted''\<rparr>, ms'))"

section \<open>The application\<close>

text \<open>
  A request as the middleware stack receives it.  \<open>req_body\<close> is what
  \<^verbatim>\<open>express.json()\<close> makes of the body: none, the parsed object, or the error it
  raises on malformed JSON.  \<open>req_path\<close> is the path of \<open>req_url\<close> as received,
  without the query string, and \<open>req_query\<close> the parsed query string, each parameter
  a string or absent.  Express decodes a path parameter while it matches and fails on
  a malformed percent-encoding (\<^verbatim>\<open>%ZZ\<close>); paths are taken to hold none.
\<close>

datatype body_in = NoBody | JsonBody payload | BadJson js_error

record request =
  req_method :: string
  req_url :: string
  req_path :: string
  req_query :: query
  req_body :: body_in

text \<open>
  What the surroundings decide for one request: the clock (\<^verbatim>\<open>new Date()\<close> while
  the request is served), the identifier a new document would get, and whether the
  database fails.
\<close>

record env =
  now :: js_date
  fresh_id :: string
  db_fault :: "js_error option"

text \<open>The state the application changes: the collection, and the lines of \<^verbatim>\<open>log.txt\<close>.\<close>

record world =
  docs :: "movie list"
  logfile :: "string list"

text \<open>
  What the client gets.  Besides a response written by the code of the repository there
  are the three ways of leaving it to Express: no middleware answered, and Express
  sends its own 404 page (\<open>FrameworkNotFound\<close>); an error reached the end of the
  stack with no error middleware, and Express sends its own error page
  (\<open>FrameworkError\<close>); a handler's promise was rejected, nothing caught it, and no
  answer is written (\<open>Unhandled\<close>).

  The repository pins no version of Express, and the versions differ on a rejected
  promise: Express 4 ignores what an \<^verbatim>\<open>async\<close> handler returns, Express 5 passes
  the rejection on as \<^verbatim>\<open>next(err)\<close> would.  The version is a parameter of both
  applications.
\<close>

datatype reply = Reply response | FrameworkNotFound | FrameworkError js_error | Unhandled js_error

datatype express = Express4 | Express5

text \<open>
  \<^verbatim>\<open>express.json()\<close>, the first middleware of both variants: it raises the parse
  error, or hands on the parsed object (the empty object when there is no JSON body).
\<close>

definition express_json :: "body_in \<Rightarrow> js_error + payload" where
  "express_json b =
     (case b of
        NoBody \<Rightarrow> Inr (\<lambda>k. Undefined)
      | JsonBody p \<Rightarrow> Inr p
      | BadJson err \<Rightarrow> Inl err)"

subsection \<open>Route matching\<close>

text \<open>
  Express compares paths segment by segment, ignoring case and one trailing slash;
  \<^verbatim>\<open>:id\<close> takes one non-empty segment; a \<^verbatim>\<open>get\<close> route also serves
  \<^verbatim>\<open>HEAD\<close>; \<^verbatim>\<open>app.use('/api-docs', ...)\<close> takes every method and every path
  below the mount point.
\<close>

fun pieces :: "string \<Rightarrow> string list" where
  "pieces [] = [[]]"
| "pieces (c # s) =
     (if c = CHR ''/'' then [] # pieces s
      else (case pieces s of [] \<Rightarrow> [[c]] | x # xs \<Rightarrow> (c # x) # xs))"

definition segments :: "string \<Rightarrow> string list" where
  "segments p = (let xs = tl (pieces p) in if xs \<noteq> [] \<and> last xs = [] then butlast xs else xs)"

datatype route = ApiDocs | Home | ListMovies | CreateMovie | UpdateMovie string | DeleteMovie string

definition is_get :: "string \<Rightarrow> bool" where
  "is_get m = (m = ''GET'' \<or> m = ''HEAD'')"

definition route_of :: "request \<Rightarrow> route option" where
  "route_of r =
     (let m = req_method r; segs = segments (req_path r); low = map (map lower) segs in
      if low \<noteq> [] \<and> hd low = ''api-docs'' then Some ApiDocs
      else if is_get m \<and> segs = [] then Some Home
      else if is_get m \<and> low = [''api'', ''movies''] then Some ListMovies
      else if m = ''POST'' \<and> low = [''api'', ''movies''] then Some CreateMovie
      else if m = ''PUT'' \<and> length segs = 3 \<and> take 2 low = [''api'', ''movies''] \<and> segs ! 2 \<noteq> []
        then Some (UpdateMovie (segs ! 2))
      else if m = ''DELETE'' \<and> length segs = 3 \<and> take 2 low = [''api'', ''movies''] \<and> segs ! 2 \<noteq> []
        then Some (DeleteMovie (segs ! 2))
      else None)"

subsection \<open>Middleware\<close>

text \<open>The logger of lines 52-58 and 356-362 (the write to the file is taken to succeed).\<close>

definition logger :: "env \<Rightarrow> request \<Rightarrow> world \<Rightarrow> world" where
  "logger e r w =
     w\<lparr>logfile := logfile w @
        [''['' @ toISOString (now e) @ ''] '' @ req_method r @ '' '' @ req_url r @ [CHR 0x0A]]\<rparr>"

text \<open>The 404 handler of variant B, lines 576-581.\<close>

definition notFound :: "request \<Rightarrow> response" where
  "notFound r =
     \<lparr>status = 404,
      content = ErrorMessage ''Not Found'' (''Route '' @ req_method r @ '' '' @ req_url r @ '' not found'')\<rparr>"

text \<open>The error-handling middleware of variant B, lines 584-591.\<close>

definition errorHandler :: "env \<Rightarrow> js_error \<Rightarrow> world \<Rightarrow> response \<times> world" where
  "errorHandler e err w =
     (\<lparr>status = 500,
       content = ErrorMessage ''Server Error''
         (if message err = [] then ''Something went wrong'' else message err)\<rparr>,
      w\<lparr>logfile := logfile w @
        [''['' @ toISOString (now e) @ ''] ERROR: '' @ stack err @ [CHR 0x0A]]\<rparr>)"

definition home :: response where
  "home = \<lparr>status = 200, content = Text ''Welcome to the Movies Management API!''\<rparr>"

definition swagger :: response where
  "swagger = \<lparr>status = 200, content = SwaggerUI\<rparr>"

subsection \<open>Variant A\<close>

text \<open>
  The stack of variant A: \<^verbatim>\<open>express.json()\<close>, the Swagger mount, the logger, the
  five routes.  There is no 404 handler and no error middleware: what the handlers do
  not answer is left to Express.
\<close>

definition handle_A ::
  "(string \<Rightarrow> bool) \<Rightarrow> regex_engine \<Rightarrow> js_date \<Rightarrow> env \<Rightarrow> request \<Rightarrow> payload \<Rightarrow> route \<Rightarrow> movie list
     \<Rightarrow> outcome \<times> movie list" where
  "handle_A isURL engine boot e r p rt ms =
     (case rt of
        ApiDocs \<Rightarrow> (Responded swagger, ms)
      | Home \<Rightarrow> (Responded home, ms)
      | ListMovies \<Rightarrow> (listMovies_A engine (db_fault e) (req_query r) ms, ms)
      | CreateMovie \<Rightarrow> createMovie_A isURL boot (db_fault e) (fresh_id e) p ms
      | UpdateMovie i \<Rightarrow> updateMovie_A isURL boot (db_fault e) i p ms
      | DeleteMovie i \<Rightarrow> deleteMovie_A (db_fault e) i ms)"

definition finish_A :: "express \<Rightarrow> outcome \<times> movie list \<Rightarrow> world \<Rightarrow> reply \<times> world" where
  "finish_A ver x w =
     (case x of
        (Responded res, ms) \<Rightarrow> (Reply res, w\<lparr>docs := ms\<rparr>)
      | (Forwarded err, ms) \<Rightarrow> (FrameworkError err, w\<lparr>docs := ms\<rparr>)
      | (Uncaught err, ms) \<Rightarrow>
          (case ver of
             Express4 \<Rightarrow> (Unhandled err, w\<lparr>docs := ms\<rparr>)
           | Express5 \<Rightarrow> (FrameworkError err, w\<lparr>docs := ms\<rparr>)))"

definition app_A ::
  "express \<Rightarrow> (string \<Rightarrow> bool) \<Rightarrow> regex_engine \<Rightarrow> js_date \<Rightarrow> env \<Rightarrow> request \<Rightarrow> world \<Rightarrow> reply \<times> world" where
  "app_A ver isURL engine boot e r w =
     (case express_json (req_body r) of
        Inl err \<Rightarrow> (FrameworkError err, w)
      | Inr p \<Rightarrow>
          (case route_of r of
             None \<Rightarrow> (FrameworkNotFound, logger e r w)
           | Some rt \<Rightarrow>
               if rt = ApiDocs then (Reply swagger, w)
               else finish_A ver (handle_A isURL engine boot e r p rt (docs w)) (logger e r w)))"

subsection \<open>Variant B\<close>

text \<open>
  The stack of variant B: \<^verbatim>\<open>express.json()\<close>, the logger, the Swagger mount, the
  five routes, the 404 handler, the error middleware.  An error raised by a middleware or
  forwarded by a handler skips to the error middleware.
\<close>

definition handle_B ::
  "(string \<Rightarrow> bool) \<Rightarrow> regex_engine \<Rightarrow> js_date \<Rightarrow> env \<Rightarrow> request \<Rightarrow> payload \<Rightarrow> route \<Rightarrow> movie list
     \<Rightarrow> outcome \<times> movie list" where
  "handle_B isURL engine boot e r p rt ms =
     (case rt of
        ApiDocs \<Rightarrow> (Responded swagger, ms)
      | Home \<Rightarrow> (Responded home, ms)
      | ListMovies \<Rightarrow> (listMovies_B engine (db_fault e) (req_query r) ms, ms)
      | CreateMovie \<Rightarrow> createMovie_B isURL boot (db_fault e) (fresh_id e) p ms
      | UpdateMovie i \<Rightarrow> updateMovie_B isURL boot (db_fault e) i p ms
      | DeleteMovie i \<Rightarrow> deleteMovie_B (db_fault e) i ms)"

definition finish_B :: "express \<Rightarrow> env \<Rightarrow> outcome \<times> movie list \<Rightarrow> world \<Rightarrow> reply \<times> world" where
  "finish_B ver e x w =
     (case x of
        (Responded res, ms) \<Rightarrow> (Reply res, w\<lparr>docs := ms\<rparr>)
      | (Forwarded err, ms) \<Rightarrow>
          (case errorHandler e err (w\<lparr>docs := ms\<rparr>) of (res, w') \<Rightarrow> (Reply res, w'))
      | (Uncaught err, ms) \<Rightarrow>
          (case ver of
             Express4 \<Rightarrow> (Unhandled err, w\<lparr>docs := ms\<rparr>)
           | Express5 \<Rightarrow>
               (case errorHandler e err (w\<lparr>docs := ms\<rparr>) of (res, w') \<Rightarrow> (Reply res, w'))))"

definition app_B ::
  "express \<Rightarrow> (string \<Rightarrow> bool) \<Rightarrow> regex_engine \<Rightarrow> js_date \<Rightarrow> env \<Rightarrow> request \<Rightarrow> world \<Rightarrow> reply \<times> world" where
  "app_B ver isURL engine boot e r w =
     (case express_json (req_body r) of
        Inl err \<Rightarrow> (case errorHandler e err w of (res, w') \<Rightarrow> (Reply res, w'))
      | Inr p \<Rightarrow>
          (case route_of r of
             None \<Rightarrow> (Reply (notFound r), logger e r w)
           | Some rt \<Rightarrow> finish_B ver e (handle_B isURL engine boot e r p rt (docs w)) (logger e r w)))"

section \<open>Notions the statements use\<close>

text \<open>
  A handler has rejected the body for the field \<open>f\<close>: it answered 400 and the list
  of violations it sent holds one whose \<^verbatim>\<open>param\<close> is \<open>f\<close>.
\<close>

definition names_field :: "string \<Rightarrow> violation list \<Rightarrow> bool" where
  "names_field f vs = (f \<in> set (map param vs))"

definition rejects_field :: "string \<Rightarrow> outcome \<Rightarrow> bool" where
  "rejects_field f out =
     (case out of
        Responded res \<Rightarrow>
          status res = 400 \<and> (case content res of Errors vs \<Rightarrow> names_field f vs | _ \<Rightarrow> False)
      | _ \<Rightarrow> False)"

text \<open>The status of a reply, when the application wrote one.\<close>

definition reply_status :: "reply \<Rightarrow> nat option" where
  "reply_status x = (case x of Reply res \<Rightarrow> Some (status res) | _ \<Rightarrow> None)"

text \<open>
  Case-insensitive substring, in the words of the specification: the one text occurs
  in the other when letter case is ignored.
\<close>

definition ci_substring :: "string \<Rightarrow> string \<Rightarrow> bool" where
  "ci_substring x s = sublist (map canonicalize x) (map canonicalize s)"

text \<open>
  The selection the list route is specified to make, one condition per query parameter
  that is present and not empty, all of them required together.
\<close>

definition title_selects :: "string option \<Rightarrow> movie \<Rightarrow> bool" where
  "title_selects x m =
     (case x of None \<Rightarrow> True
      | Some t \<Rightarrow> if t = [] then True else (case title m of None \<Rightarrow> False | Some s \<Rightarrow> ci_substring t s))"

definition year_selects :: "string option \<Rightarrow> movie \<Rightarrow> bool" where
  "year_selects x m =
     (case x of None \<Rightarrow> True
      | Some y \<Rightarrow> if y = [] then True
          else (case parseInt y of NaN \<Rightarrow> False | Number n \<Rightarrow> releaseYear m = Some n))"

definition genre_selects :: "string option \<Rightarrow> movie \<Rightarrow> bool" where
  "genre_selects x m =
     (case x of None \<Rightarrow> True | Some g \<Rightarrow> if g = [] then True else genre m = Some g)"

definition selected :: "query \<Rightarrow> movie \<Rightarrow> bool" where
  "selected q m =
     (title_selects (q ''title'') m \<and> year_selects (q ''releaseYear'') m \<and> genre_selects (q ''genre'') m)"

text \<open>The query parameters the theorems single out.\<close>

definition plain_title :: "query \<Rightarrow> bool" where
  "plain_title q = (case q ''title'' of None \<Rightarrow> True | Some t \<Rightarrow> plain_pattern t \<and> CHR ''.'' \<notin> set t)"

definition numeric_year :: "query \<Rightarrow> bool" where
  "numeric_year q =
     (case q ''releaseYear'' of None \<Rightarrow> True | Some y \<Rightarrow> if y = [] then True else parseInt y \<noteq> NaN)"

text \<open>
  The four required fields of a body are valid, read off the rules of section 4.1 of the
  specification: title and director not empty, the release year an integer from 1888
  to the year of \<open>boot\<close>, the genre one of the seven.
\<close>

definition core_fields_valid :: "js_date \<Rightarrow> payload \<Rightarrow> bool" where
  "core_fields_valid boot p =
     (toString (p ''title'') \<noteq> [] \<and> toString (p ''director'') \<noteq> [] \<and>
      isInt (toString (p ''releaseYear'')) 1888 (getFullYear boot) \<and>
      toString (p ''genre'') \<in> set genres)"

text \<open>
  An absolute URL starts with a scheme and a colon, before any slash; a string without
  that has no scheme.
\<close>

definition has_scheme :: "string \<Rightarrow> bool" where
  "has_scheme s = (CHR '':'' \<in> set (takeWhile (\<lambda>c. c \<noteq> CHR ''/'') s))"

text \<open>The variation selector U+FE0F, as a string.\<close>

definition selector16 :: string where
  "selector16 = [CHR 0xEF, CHR 0xB8, CHR 0x8F]"

section \<open>Data for the worked instances\<close>

text \<open>
  The records and requests of the scenarios of the specification (section 8), used
  where a statement is evaluated on a concrete input.
\<close>

definition boot2025 :: js_date where
  "boot2025 = \<lparr>getFullYear = 2025, toISOString = ''2025-11-30T08:00:00.000Z''\<rparr>"

definition newyear2026 :: js_date where
  "newyear2026 = \<lparr>getFullYear = 2026, toISOString = ''2026-01-01T10:00:00.000Z''\<rparr>"

definition arrival :: payload where
  "arrival =
     (\<lambda>k. Undefined)
       (''title'' := Str ''Arrival'', ''director'' := Str ''Villeneuve'',
        ''releaseYear'' := Num 2016, ''genre'' := Str ''Sci-Fi'')"

definition dune :: movie where
  "dune =
     \<lparr>oid = ''64b7f0a1c2d3e4f5a6b7c8d9'', title = Some ''Dune'', director = Some ''Villeneuve'',
      releaseYear = Some 2021, genre = Some ''Sci-Fi'', image' = None\<rparr>"

definition dune84 :: movie where
  "dune84 =
     \<lparr>oid = ''64b7f0a1c2d3e4f5a6b7c8da'', title = Some ''Dune'', director = Some ''Lynch'',
      releaseYear = Some 1984, genre = Some ''Sci-Fi'', image' = None\<rparr>"

definition lost :: js_error where
  "lost =
     \<lparr>name = ''MongoNetworkError'', message = ''connection lost'',
      stack = ''MongoNetworkError: connection lost''\<rparr>"

definition bad_json :: js_error where
  "bad_json =
     \<lparr>name = ''SyntaxError'', message = ''Unexpected end of JSON input'',
      stack = ''SyntaxError: Unexpected end of JSON input''\<rparr>"

text \<open>
  Closed terms for the two parameters, where an instance needs one: an engine that
  refuses every pattern it is handed, and \<open>validator_isURL\<close> refusing every string
  it does not decide.  The instances only ask them about strings the model decides.
\<close>

definition refusing_engine :: regex_engine where
  "refusing_engine pat =
     Inl \<lparr>name = ''SyntaxError'', message = ''Invalid regular expression'',
          stack = ''SyntaxError: Invalid regular expression''\<rparr>"

definition plain_isURL :: "string \<Rightarrow> bool" where
  "plain_isURL = validator_isURL (\<lambda>s. False)"

definition quiet :: env where
  "quiet = \<lparr>now = boot2025, fresh_id = ''64b7f0a1c2d3e4f5a6b7c8db'', db_fault = None\<rparr>"

definition request_of :: "string \<Rightarrow> string \<Rightarrow> body_in \<Rightarrow> request" where
  "request_of m u b = \<lparr>req_method = m, req_url = u, req_path = u, req_query = Map.empty, req_body = b\<rparr>"

definition empty_world :: world where
  "empty_world = \<lparr>docs = [], logfile = []\<rparr>"

section \<open>Properties\<close>

subsection \<open>Evaluating characters\<close>

text \<open>The rules that compute \<open>char_of\<close> on a numeral.\<close>

lemmas char_eval = char_of_def bit_Suc_0_iff

subsection \<open>Decimal numerals\<close>

lemma digit_char_digit: "d < 10 \<Longrightarrow> is_digit (digit_char d)"
  by (simp add: is_digit_def digit_char_def)

lemma digit_val_char: "d < 10 \<Longrightarrow> digit_val (digit_char d) = d"
  by (simp add: digit_val_def digit_char_def)

lemma dec_value_snoc: "dec_value (xs @ [c]) = 10 * dec_value xs + digit_val c"
  by (simp add: dec_value_def)

lemma digits_of_nonempty: "digits_of n \<noteq> []"
  by (subst digits_of.simps) simp

lemma digits_of_all_digits: "list_all is_digit (digits_of n)"
proof (induction n rule: digits_of.induct)
  case (1 n)
  show ?case
  proof (cases "n < 10")
    case True
    then show ?thesis by (subst digits_of.simps) (simp add: digit_char_digit)
  next
    case False
    with 1 show ?thesis by (subst digits_of.simps) (simp add: digit_char_digit)
  qed
qed

lemma dec_value_digits_of: "dec_value (digits_of n) = n"
proof (induction n rule: digits_of.induct)
  case (1 n)
  show ?case
  proof (cases "n < 10")
    case True
    then show ?thesis
      by (subst digits_of.simps) (simp add: dec_value_def digit_val_char)
  next
    case False
    with 1 have "dec_value (digits_of (n div 10)) = n div 10" by simp
    with False show ?thesis
      by (subst digits_of.simps) (simp add: dec_value_snoc digit_val_char)
  qed
qed

lemma digit_not_sign: "is_digit c \<Longrightarrow> c \<noteq> CHR ''-'' \<and> c \<noteq> CHR ''+''"
  by (auto simp: is_digit_def)

lemma unsigned_part_digits: "list_all is_digit s \<Longrightarrow> unsigned_part s = s"
  by (cases s) (auto simp: unsigned_part_def dest: digit_not_sign)

lemma int_regex_show_int: "int_regex (show_int n)"
  using digits_of_all_digits[of "nat n"] digits_of_all_digits[of "nat (- n)"]
  by (simp add: int_regex_def show_int_def unsigned_part_digits digits_of_nonempty)
     (simp add: unsigned_part_def digits_of_nonempty)

lemma int_value_show_int: "int_value (show_int n) = n"
proof (cases "n < 0")
  case True
  then show ?thesis by (simp add: int_value_def show_int_def dec_value_digits_of)
next
  case False
  obtain c r where cr: "digits_of (nat n) = c # r"
    using digits_of_nonempty[of "nat n"] by (cases "digits_of (nat n)") auto
  have d: "list_all is_digit (c # r)" using digits_of_all_digits[of "nat n"] cr by simp
  then have "c \<noteq> CHR ''-''" using digit_not_sign by simp
  moreover have "unsigned_part (c # r) = c # r" using d by (rule unsigned_part_digits)
  moreover have "dec_value (c # r) = nat n" using dec_value_digits_of[of "nat n"] cr by simp
  ultimately show ?thesis using False cr by (simp add: int_value_def show_int_def)
qed

lemma isInt_show_int: "isInt (show_int n) lo hi \<longleftrightarrow> lo \<le> n \<and> n \<le> hi"
  by (simp add: isInt_def int_regex_show_int int_value_show_int)

lemma show_int_nonempty: "show_int n \<noteq> []"
  by (simp add: show_int_def digits_of_nonempty)


subsection \<open>The length validator.js computes\<close>

lemma isLength_count_Nil [simp]: "isLength_count [] = 0"
  by (simp add: isLength_count_def)

lemma selectors_ascii: "list_all is_ascii s \<Longrightarrow> selectors s = 0"
proof (induction s rule: selectors.induct)
  case (1 a b c s)
  then have "a \<noteq> CHR 0xEF"
    by (auto simp: is_ascii_def)
  with 1 show ?case by simp
qed simp_all

lemma filter_ascii: "list_all is_ascii s \<Longrightarrow> filter (\<lambda>c. \<not> is_continuation c) s = s"
  by (induction s) (auto simp: is_ascii_def is_continuation_def)

lemma isLength_count_ascii: "list_all is_ascii s \<Longrightarrow> isLength_count s = length s"
  by (simp add: isLength_count_def selectors_ascii filter_ascii)

lemma isLength_count_selector16: "isLength_count selector16 = 0"
  by (simp add: isLength_count_def selector16_def is_continuation_def)

lemma isLength_count_Arrival [simp]: "isLength_count ''Arrival'' = 7"
  by (simp add: isLength_count_ascii is_ascii_def)

subsection \<open>Validation\<close>

lemma isInt_nonempty: "isInt s lo hi \<Longrightarrow> s \<noteq> []"
  by (auto simp: isInt_def int_regex_def unsigned_part_def)

lemma empty_not_genre: "[] \<notin> set genres"
  by (simp add: genres_def)

lemma validationResult_Nil [simp]: "validationResult isURL [] p = []"
  by (simp add: validationResult_def)

lemma validationResult_Cons [simp]:
  "validationResult isURL (c # cs) p = runChain isURL p c @ validationResult isURL cs p"
  by (simp add: validationResult_def)

lemma updateRules_A_eq: "updateRules_A = createRules_A"
  by (simp add: fun_eq_iff updateRules_A_def createRules_A_def)

lemma updateRules_B_eq: "updateRules_B = createRules_B"
  by (simp add: fun_eq_iff updateRules_B_def createRules_B_def)

lemma accepts_A:
  "validationResult isURL (createRules_A boot) p = [] \<longleftrightarrow>
     toString (p ''title'') \<noteq> [] \<and> 1 \<le> isLength_count (toString (p ''title'')) \<and>
     toString (p ''director'') \<noteq> [] \<and>
     isInt (toString (p ''releaseYear'')) 1888 (getFullYear boot) \<and>
     toString (p ''genre'') \<in> set genres \<and>
     (p ''image'' = Undefined \<or> isURL (toString (p ''image'')))"
  using isInt_nonempty[of "toString (p ''releaseYear'')" 1888 "getFullYear boot"] empty_not_genre
  by (auto simp: createRules_A_def Suc_le_eq)

lemma accepts_B:
  "validationResult isURL (createRules_B boot) p = [] \<longleftrightarrow>
     toString (p ''title'') \<noteq> [] \<and> toString (p ''director'') \<noteq> [] \<and>
     isInt (toString (p ''releaseYear'')) 1888 (getFullYear boot) \<and>
     toString (p ''genre'') \<in> set genres \<and>
     (p ''image'' = Undefined \<or> isURL (toString (p ''image'')))"
  by (auto simp: createRules_B_def)

lemma names_field_append [simp]: "names_field f (xs @ ys) = (names_field f xs \<or> names_field f ys)"
  by (auto simp: names_field_def)

lemma names_field_Nil [simp]: "\<not> names_field f []"
  by (simp add: names_field_def)

lemma names_field_Cons [simp]: "names_field f (v # vs) = (param v = f \<or> names_field f vs)"
  by (auto simp: names_field_def)

lemma names_title_A:
  "names_field ''title'' (validationResult isURL (createRules_A boot) p) =
     (toString (p ''title'') = [] \<or> isLength_count (toString (p ''title'')) = 0)"
  by (auto simp: createRules_A_def Suc_le_eq)

lemma names_title_B:
  "names_field ''title'' (validationResult isURL (createRules_B boot) p) = (toString (p ''title'') = [])"
  by (auto simp: createRules_B_def)

lemma names_year_A:
  "names_field ''releaseYear'' (validationResult isURL (createRules_A boot) p) =
     (\<not> isInt (toString (p ''releaseYear'')) 1888 (getFullYear boot))"
  using isInt_nonempty[of "toString (p ''releaseYear'')" 1888 "getFullYear boot"]
  by (auto simp: createRules_A_def)

lemma names_year_B:
  "names_field ''releaseYear'' (validationResult isURL (createRules_B boot) p) =
     (\<not> isInt (toString (p ''releaseYear'')) 1888 (getFullYear boot))"
  by (auto simp: createRules_B_def)

lemma names_image_A:
  "names_field ''image'' (validationResult isURL (createRules_A boot) p) =
     (p ''image'' \<noteq> Undefined \<and> \<not> isURL (toString (p ''image'')))"
  by (auto simp: createRules_A_def)

lemma names_image_B:
  "names_field ''image'' (validationResult isURL (createRules_B boot) p) =
     (p ''image'' \<noteq> Undefined \<and> \<not> isURL (toString (p ''image'')))"
  by (auto simp: createRules_B_def)

lemma rejects_create_A:
  "rejects_field f (fst (createMovie_A isURL boot fault i p ms)) =
     names_field f (validationResult isURL (createRules_A boot) p)"
  by (simp add: createMovie_A_def rejects_field_def Let_def split: prod.splits sum.splits)

lemma rejects_create_B:
  "rejects_field f (fst (createMovie_B isURL boot fault i p ms)) =
     names_field f (validationResult isURL (createRules_B boot) p)"
  by (simp add: createMovie_B_def rejects_field_def Let_def split: prod.splits sum.splits)

lemma rejects_update_A:
  "rejects_field f (fst (updateMovie_A isURL boot fault i p ms)) =
     names_field f (validationResult isURL (createRules_A boot) p)"
  by (simp add: updateMovie_A_def updateRules_A_eq rejects_field_def Let_def
      split: prod.splits sum.splits option.splits)

lemma rejects_update_B:
  "rejects_field f (fst (updateMovie_B isURL boot fault i p ms)) =
     names_field f (validationResult isURL (createRules_B boot) p)"
  by (simp add: updateMovie_B_def updateRules_B_eq rejects_field_def Let_def
      split: prod.splits sum.splits option.splits)

lemma request_of_sel [simp]:
  "req_method (request_of m u b) = m"
  "req_url (request_of m u b) = u"
  "req_path (request_of m u b) = u"
  "req_query (request_of m u b) = Map.empty"
  "req_body (request_of m u b) = b"
  by (simp_all add: request_of_def)

lemma snd_create:
  "snd (createMovie_A isURL boot fault i p ms) =
     (if validationResult isURL (createRules_A boot) p \<noteq> [] then ms
      else snd (Movie_save fault (Movie_new i p) ms))"
  "snd (createMovie_B isURL boot fault i p ms) =
     (if validationResult isURL (createRules_B boot) p \<noteq> [] then ms
      else snd (Movie_save fault (Movie_new i p) ms))"
  by (simp_all add: createMovie_A_def createMovie_B_def Let_def split: prod.splits sum.splits)

lemma snd_update:
  "snd (updateMovie_A isURL boot fault i p ms) =
     (if validationResult isURL (updateRules_A boot) p \<noteq> [] then ms
      else snd (Movie_findByIdAndUpdate fault i p ms))"
  "snd (updateMovie_B isURL boot fault i p ms) =
     (if validationResult isURL (updateRules_B boot) p \<noteq> [] then ms
      else snd (Movie_findByIdAndUpdate fault i p ms))"
  by (simp_all add: updateMovie_A_def updateMovie_B_def Let_def split: prod.splits sum.splits option.splits)

lemma invalid_body_answer:
  "validationResult isURL (createRules_A boot) p \<noteq> [] \<Longrightarrow>
     createMovie_A isURL boot fault i p ms =
       (Responded \<lparr>status = 400, content = Errors (validationResult isURL (createRules_A boot) p)\<rparr>, ms)"
  "validationResult isURL (createRules_B boot) p \<noteq> [] \<Longrightarrow>
     createMovie_B isURL boot fault i p ms =
       (Responded \<lparr>status = 400, content = Errors (validationResult isURL (createRules_B boot) p)\<rparr>, ms)"
  "validationResult isURL (updateRules_A boot) p \<noteq> [] \<Longrightarrow>
     updateMovie_A isURL boot fault i p ms =
       (Responded \<lparr>status = 400, content = Errors (validationResult isURL (updateRules_A boot) p)\<rparr>, ms)"
  "validationResult isURL (updateRules_B boot) p \<noteq> [] \<Longrightarrow>
     updateMovie_B isURL boot fault i p ms =
       (Responded \<lparr>status = 400, content = Errors (validationResult isURL (updateRules_B boot) p)\<rparr>, ms)"
  by (simp_all add: createMovie_A_def createMovie_B_def updateMovie_A_def updateMovie_B_def Let_def)

text \<open>
  A validated body casts: the release year of a body that passed \<open>IsInt\<close> is a
  number or a run of digits.
\<close>

lemma castNumber_validated:
  "isInt (toString v) lo hi \<Longrightarrow> \<exists>n. castNumber v = Inr (Some n)"
  by (cases v) (auto simp: isInt_def int_regex_def unsigned_part_def)

text \<open>
  Claim C10, as amended.  The rule chain of variant A accepts a body exactly when the
  chain of variant B accepts it and the title has validator.js length at least 1, on
  the create route and on the update route.  So the two variants accept and reject the
  same bodies among those whose title is ASCII text.  The \<open>NotEmpty\<close> checks only
  variant A makes on the release year and the genre are redundant, since \<open>IsInt\<close>
  and \<open>IsIn\<close> already fail on the empty string (the string form of a missing value);
  \<open>IsLength 1\<close> agrees with \<open>NotEmpty\<close> on ASCII text.
\<close>

theorem rule_chains_agree:
  "(validationResult isURL (createRules_A boot) p = []) =
     (validationResult isURL (createRules_B boot) p = [] \<and> 1 \<le> isLength_count (toString (p ''title'')))
   \<and> (validationResult isURL (updateRules_A boot) p = []) =
     (validationResult isURL (updateRules_B boot) p = [] \<and> 1 \<le> isLength_count (toString (p ''title'')))
   \<and> (list_all is_ascii (toString (p ''title'')) \<longrightarrow>
        (validationResult isURL (createRules_A boot) p = []) = (validationResult isURL (createRules_B boot) p = [])
        \<and> (validationResult isURL (updateRules_A boot) p = []) = (validationResult isURL (updateRules_B boot) p = []))
   \<and> \<not> passes isURL (IsInt 1888 (getFullYear boot)) []
   \<and> \<not> passes isURL (IsIn genres) []
   \<and> (list_all is_ascii s \<longrightarrow> passes isURL (IsLength 1) s = passes isURL NotEmpty s)"
proof -
  have general: "(validationResult isURL (createRules_A boot) p = []) =
     (validationResult isURL (createRules_B boot) p = [] \<and> 1 \<le> isLength_count (toString (p ''title'')))"
    by (auto simp: accepts_A accepts_B)
  have length_ascii: "(1 \<le> isLength_count t) = (t \<noteq> [])" if "list_all is_ascii t" for t
    using that by (cases t) (simp_all add: isLength_count_ascii)
  have ascii_case: "list_all is_ascii (toString (p ''title'')) \<longrightarrow>
        (validationResult isURL (createRules_A boot) p = []) = (validationResult isURL (createRules_B boot) p = [])"
    using length_ascii [of "toString (p ''title'')"] by (auto simp: accepts_A accepts_B)
  have no_int: "\<not> isInt [] 1888 (getFullYear boot)"
    using isInt_nonempty by blast
  show ?thesis
    using general ascii_case no_int empty_not_genre length_ascii [of s]
    by (simp add: updateRules_A_eq updateRules_B_eq)
qed

theorem rule_chains_agree_witness:
  "list_all is_ascii (toString (arrival ''title''))
   \<and> validationResult plain_isURL (createRules_A boot2025) arrival = []
   \<and> validationResult plain_isURL (createRules_B boot2025) arrival = []
   \<and> validationResult plain_isURL (updateRules_A boot2025) (arrival(''genre'' := Undefined)) \<noteq> []
   \<and> validationResult plain_isURL (updateRules_B boot2025) (arrival(''genre'' := Undefined)) \<noteq> []"
proof -
  have ascii: "list_all is_ascii (toString (arrival ''title''))"
    by (simp add: arrival_def is_ascii_def)
  have ascii': "list_all is_ascii (toString ((arrival(''genre'' := Undefined)) ''title''))"
    by (simp add: arrival_def is_ascii_def)
  have "validationResult plain_isURL (createRules_B boot2025) arrival = []"
    by (simp add: createRules_B_def arrival_def boot2025_def isInt_show_int genres_def)
  moreover have "validationResult plain_isURL (updateRules_B boot2025) (arrival(''genre'' := Undefined)) \<noteq> []"
    by (simp add: updateRules_B_def arrival_def genres_def)
  ultimately show ?thesis
    using rule_chains_agree [of plain_isURL boot2025 arrival]
      rule_chains_agree [of plain_isURL boot2025 "arrival(''genre'' := Undefined)"] ascii ascii'
    by simp
qed

text \<open>
  Claim C10 as stated fails: a title that is the variation selector U+FE0F alone is
  not empty and has validator.js length 0, so variant A rejects the body for its title
  and variant B accepts it.
\<close>

theorem variation_selector_counterexample:
  "validationResult plain_isURL (createRules_A boot2025) (arrival(''title'' := Str selector16)) =
     [\<lparr>param = ''title'', msg = ''Title must be at least 1 character'', val = Str selector16\<rparr>]
   \<and> validationResult plain_isURL (createRules_B boot2025) (arrival(''title'' := Str selector16)) = []
   \<and> validationResult plain_isURL (updateRules_A boot2025) (arrival(''title'' := Str selector16)) =
     [\<lparr>param = ''title'', msg = ''Title must be at least 1 character'', val = Str selector16\<rparr>]
   \<and> validationResult plain_isURL (updateRules_B boot2025) (arrival(''title'' := Str selector16)) = []"
proof -
  have not_empty: "selector16 \<noteq> []"
    by (simp add: selector16_def)
  show ?thesis
    using not_empty
    by (simp add: createRules_A_def createRules_B_def updateRules_A_def updateRules_B_def
        arrival_def boot2025_def isInt_show_int genres_def show_int_nonempty isLength_count_selector16)
qed

text \<open>
  Claim C1.  A body without the field \<open>title\<close> is rejected by the create and the
  update handler of both variants: the answer is 400, its list of violations names
  \<open>title\<close>, and the collection is returned as it was, whatever the database would
  have done (\<open>fault\<close> is arbitrary: the model is not called).  More generally, a
  body \<open>b\<close> with any violation is answered 400 with all its violations and leaves
  the collection as it was.
\<close>

theorem missing_title_rejected:
  assumes "p ''title'' = Undefined"
  shows "rejects_field ''title'' (fst (createMovie_A isURL boot fault i p ms))
       \<and> snd (createMovie_A isURL boot fault i p ms) = ms
       \<and> rejects_field ''title'' (fst (createMovie_B isURL boot fault i p ms))
       \<and> snd (createMovie_B isURL boot fault i p ms) = ms
       \<and> rejects_field ''title'' (fst (updateMovie_A isURL boot fault j p ms))
       \<and> snd (updateMovie_A isURL boot fault j p ms) = ms
       \<and> rejects_field ''title'' (fst (updateMovie_B isURL boot fault j p ms))
       \<and> snd (updateMovie_B isURL boot fault j p ms) = ms
       \<and> (validationResult isURL (createRules_A boot) b \<noteq> [] \<longrightarrow>
            createMovie_A isURL boot fault i b ms =
              (Responded \<lparr>status = 400, content = Errors (validationResult isURL (createRules_A boot) b)\<rparr>, ms))
       \<and> (validationResult isURL (createRules_B boot) b \<noteq> [] \<longrightarrow>
            createMovie_B isURL boot fault i b ms =
              (Responded \<lparr>status = 400, content = Errors (validationResult isURL (createRules_B boot) b)\<rparr>, ms))
       \<and> (validationResult isURL (updateRules_A boot) b \<noteq> [] \<longrightarrow>
            updateMovie_A isURL boot fault j b ms =
              (Responded \<lparr>status = 400, content = Errors (validationResult isURL (updateRules_A boot) b)\<rparr>, ms))
       \<and> (validationResult isURL (updateRules_B boot) b \<noteq> [] \<longrightarrow>
            updateMovie_B isURL boot fault j b ms =
              (Responded \<lparr>status = 400, content = Errors (validationResult isURL (updateRules_B boot) b)\<rparr>, ms))"
proof -
  have named_A: "names_field ''title'' (validationResult isURL (createRules_A boot) p)"
    using assms by (simp add: names_title_A)
  have named_B: "names_field ''title'' (validationResult isURL (createRules_B boot) p)"
    using assms by (simp add: names_title_B)
  have bad_A: "validationResult isURL (createRules_A boot) p \<noteq> []"
    using named_A by auto
  have bad_B: "validationResult isURL (createRules_B boot) p \<noteq> []"
    using named_B by auto
  have kept: "snd (createMovie_A isURL boot fault i p ms) = ms"
      "snd (updateMovie_A isURL boot fault j p ms) = ms"
      "snd (createMovie_B isURL boot fault i p ms) = ms"
      "snd (updateMovie_B isURL boot fault j p ms) = ms"
    using bad_A bad_B by (simp_all add: snd_create snd_update updateRules_A_eq updateRules_B_eq)
  have rejected: "rejects_field ''title'' (fst (createMovie_A isURL boot fault i p ms))"
      "rejects_field ''title'' (fst (createMovie_B isURL boot fault i p ms))"
      "rejects_field ''title'' (fst (updateMovie_A isURL boot fault j p ms))"
      "rejects_field ''title'' (fst (updateMovie_B isURL boot fault j p ms))"
    using named_A named_B
    by (simp_all add: rejects_create_A rejects_create_B rejects_update_A rejects_update_B)
  show ?thesis
    using kept rejected invalid_body_answer [of isURL boot b fault _ ms] by blast
qed

theorem missing_title_rejected_witness:
  "(arrival(''title'' := Undefined)) ''title'' = Undefined
   \<and> createMovie_A plain_isURL boot2025 None ''64b7f0a1c2d3e4f5a6b7c8db'' (arrival(''title'' := Undefined)) [dune] =
       (Responded \<lparr>status = 400, content = Errors
          [\<lparr>param = ''title'', msg = ''Title is required'', val = Undefined\<rparr>,
           \<lparr>param = ''title'', msg = ''Title must be at least 1 character'', val = Undefined\<rparr>]\<rparr>, [dune])
   \<and> rejects_field ''title''
        (fst (updateMovie_B plain_isURL boot2025 None (oid dune) (arrival(''title'' := Undefined)) [dune]))
   \<and> snd (updateMovie_B plain_isURL boot2025 None (oid dune) (arrival(''title'' := Undefined)) [dune]) = [dune]"
proof -
  have "createMovie_A plain_isURL boot2025 None ''64b7f0a1c2d3e4f5a6b7c8db'' (arrival(''title'' := Undefined)) [dune] =
       (Responded \<lparr>status = 400, content = Errors
          [\<lparr>param = ''title'', msg = ''Title is required'', val = Undefined\<rparr>,
           \<lparr>param = ''title'', msg = ''Title must be at least 1 character'', val = Undefined\<rparr>]\<rparr>, [dune])"
    by (simp add: createMovie_A_def createRules_A_def arrival_def boot2025_def isInt_show_int genres_def
        show_int_nonempty)
  then show ?thesis
    using missing_title_rejected [of "arrival(''title'' := Undefined)" plain_isURL boot2025 None
        "''64b7f0a1c2d3e4f5a6b7c8db''" "[dune]" "oid dune"]
    by simp
qed

text \<open>
  Claim C3, as amended.  The upper bound of the release year is the calendar year read
  when the routes were registered (\<open>boot\<close>), not the year of the request.  For a
  body whose \<open>releaseYear\<close> is the integer \<open>n\<close>, sent as a number or as its
  decimal string, each of the four write handlers
  answers 400 with a violation naming \<open>releaseYear\<close> exactly when \<open>n\<close> is below
  1888 or above that year; so 1888 and the year of registration are accepted.
\<close>

theorem releaseYear_range:
  assumes "p ''releaseYear'' = Num n \<or> p ''releaseYear'' = Str (show_int n)"
  shows "rejects_field ''releaseYear'' (fst (createMovie_A isURL boot fault i p ms)) = (n < 1888 \<or> getFullYear boot < n)
       \<and> rejects_field ''releaseYear'' (fst (createMovie_B isURL boot fault i p ms)) = (n < 1888 \<or> getFullYear boot < n)
       \<and> rejects_field ''releaseYear'' (fst (updateMovie_A isURL boot fault j p ms)) = (n < 1888 \<or> getFullYear boot < n)
       \<and> rejects_field ''releaseYear'' (fst (updateMovie_B isURL boot fault j p ms)) = (n < 1888 \<or> getFullYear boot < n)"
proof -
  have "toString (p ''releaseYear'') = show_int n"
    using assms by auto
  then have "isInt (toString (p ''releaseYear'')) 1888 (getFullYear boot) = (1888 \<le> n \<and> n \<le> getFullYear boot)"
    by (simp add: isInt_show_int)
  then have "(\<not> isInt (toString (p ''releaseYear'')) 1888 (getFullYear boot)) = (n < 1888 \<or> getFullYear boot < n)"
    by auto
  then show ?thesis
    by (simp only: rejects_create_A rejects_create_B rejects_update_A rejects_update_B
        names_year_A names_year_B simp_thms)
qed

theorem releaseYear_range_witness:
  "(arrival(''releaseYear'' := Num 1887)) ''releaseYear'' = Num 1887
   \<and> rejects_field ''releaseYear''
        (fst (createMovie_A plain_isURL boot2025 None ''64b7f0a1c2d3e4f5a6b7c8db'' (arrival(''releaseYear'' := Num 1887)) []))
   \<and> \<not> rejects_field ''releaseYear''
        (fst (createMovie_A plain_isURL boot2025 None ''64b7f0a1c2d3e4f5a6b7c8db'' (arrival(''releaseYear'' := Num 1888)) []))
   \<and> \<not> rejects_field ''releaseYear''
        (fst (updateMovie_B plain_isURL boot2025 None (oid dune) (arrival(''releaseYear'' := Num 2025)) [dune]))
   \<and> rejects_field ''releaseYear''
        (fst (updateMovie_B plain_isURL boot2025 None (oid dune) (arrival(''releaseYear'' := Num 2026)) [dune]))
   \<and> show_int 1800 = ''1800''
   \<and> rejects_field ''releaseYear''
        (fst (createMovie_B plain_isURL boot2025 None ''64b7f0a1c2d3e4f5a6b7c8db'' (arrival(''releaseYear'' := Str ''1800'')) []))"
proof -
  have s: "show_int 1800 = ''1800''"
    by (simp add: show_int_def digits_of.simps digit_char_def char_eval)
  have h: "(arrival(''releaseYear'' := Str ''1800'')) ''releaseYear'' = Num 1800
      \<or> (arrival(''releaseYear'' := Str ''1800'')) ''releaseYear'' = Str (show_int 1800)"
    by (simp add: s)
  show ?thesis
    using releaseYear_range [of "arrival(''releaseYear'' := Num 1887)" 1887 plain_isURL boot2025 None
        "''64b7f0a1c2d3e4f5a6b7c8db''" "[]" "oid dune"]
      releaseYear_range [of "arrival(''releaseYear'' := Num 1888)" 1888 plain_isURL boot2025 None
        "''64b7f0a1c2d3e4f5a6b7c8db''" "[]" "oid dune"]
      releaseYear_range [of "arrival(''releaseYear'' := Num 2025)" 2025 plain_isURL boot2025 None
        "''64b7f0a1c2d3e4f5a6b7c8db''" "[dune]" "oid dune"]
      releaseYear_range [of "arrival(''releaseYear'' := Num 2026)" 2026 plain_isURL boot2025 None
        "''64b7f0a1c2d3e4f5a6b7c8db''" "[dune]" "oid dune"]
      releaseYear_range [of "arrival(''releaseYear'' := Str ''1800'')" 1800 plain_isURL boot2025 None
        "''64b7f0a1c2d3e4f5a6b7c8db''" "[]" "oid dune"] h
    by (simp add: boot2025_def s)
qed

text \<open>
  Claim C3 as stated fails: a server that registered its routes in 2025 and serves a
  request on 1 January 2026 rejects the release year 2026, the current year at request
  time.
\<close>

theorem releaseYear_request_time_counterexample:
  "getFullYear (now (quiet\<lparr>now := newyear2026\<rparr>)) = 2026
   \<and> fst (app_A Express4 plain_isURL refusing_engine boot2025 (quiet\<lparr>now := newyear2026\<rparr>)
        (request_of ''POST'' ''/api/movies'' (JsonBody (arrival(''releaseYear'' := Num 2026)))) empty_world) =
      Reply \<lparr>status = 400, content = Errors
        [\<lparr>param = ''releaseYear'', msg = ''Release year must be valid'', val = Num 2026\<rparr>]\<rparr>
   \<and> fst (app_A Express5 plain_isURL refusing_engine boot2025 (quiet\<lparr>now := newyear2026\<rparr>)
        (request_of ''POST'' ''/api/movies'' (JsonBody (arrival(''releaseYear'' := Num 2026)))) empty_world) =
      Reply \<lparr>status = 400, content = Errors
        [\<lparr>param = ''releaseYear'', msg = ''Release year must be valid'', val = Num 2026\<rparr>]\<rparr>
   \<and> fst (app_B Express4 plain_isURL refusing_engine boot2025 (quiet\<lparr>now := newyear2026\<rparr>)
        (request_of ''POST'' ''/api/movies'' (JsonBody (arrival(''releaseYear'' := Num 2026)))) empty_world) =
      Reply \<lparr>status = 400, content = Errors
        [\<lparr>param = ''releaseYear'', msg = ''Release year must be valid'', val = Num 2026\<rparr>]\<rparr>
   \<and> fst (app_B Express5 plain_isURL refusing_engine boot2025 (quiet\<lparr>now := newyear2026\<rparr>)
        (request_of ''POST'' ''/api/movies'' (JsonBody (arrival(''releaseYear'' := Num 2026)))) empty_world) =
      Reply \<lparr>status = 400, content = Errors
        [\<lparr>param = ''releaseYear'', msg = ''Release year must be valid'', val = Num 2026\<rparr>]\<rparr>"
proof -
  have route: "route_of (request_of ''POST'' ''/api/movies'' (JsonBody (arrival(''releaseYear'' := Num 2026)))) = Some CreateMovie"
    by (simp add: route_of_def request_of_def segments_def lower_def is_get_def Let_def)
  have A: "createMovie_A plain_isURL boot2025 None ''64b7f0a1c2d3e4f5a6b7c8db'' (arrival(''releaseYear'' := Num 2026)) [] =
      (Responded \<lparr>status = 400, content = Errors
        [\<lparr>param = ''releaseYear'', msg = ''Release year must be valid'', val = Num 2026\<rparr>]\<rparr>, [])"
    by (simp add: createMovie_A_def createRules_A_def arrival_def boot2025_def isInt_show_int genres_def
        show_int_nonempty)
  have B: "createMovie_B plain_isURL boot2025 None ''64b7f0a1c2d3e4f5a6b7c8db'' (arrival(''releaseYear'' := Num 2026)) [] =
      (Responded \<lparr>status = 400, content = Errors
        [\<lparr>param = ''releaseYear'', msg = ''Release year must be valid'', val = Num 2026\<rparr>]\<rparr>, [])"
    by (simp add: createMovie_B_def createRules_B_def arrival_def boot2025_def isInt_show_int genres_def)
  show ?thesis
    by (simp add: app_A_def app_B_def route handle_A_def handle_B_def finish_A_def finish_B_def A B
        express_json_def quiet_def empty_world_def newyear2026_def)
qed

text \<open>
  Claim C9, as amended.  The field \<open>image\<close> is optional: each of the four write
  handlers rejects a body for \<open>image\<close> exactly when the field is present and
  \<^verbatim>\<open>isURL\<close> of validator.js refuses its string form.  A body without \<open>image\<close>
  is never rejected for it, and it passes the rules of variant B exactly when its four
  required fields are valid.  \<^verbatim>\<open>isURL\<close> does not ask for an absolute URL: a host
  name with a path and no scheme is accepted, as it is with a scheme; the empty
  string (the string form of \<^verbatim>\<open>null\<close>) and a single word are refused.
\<close>

theorem image_optional_url:
  "rejects_field ''image'' (fst (createMovie_A (validator_isURL rest) boot fault i p ms)) =
      (p ''image'' \<noteq> Undefined \<and> \<not> validator_isURL rest (toString (p ''image'')))
   \<and> rejects_field ''image'' (fst (createMovie_B (validator_isURL rest) boot fault i p ms)) =
      (p ''image'' \<noteq> Undefined \<and> \<not> validator_isURL rest (toString (p ''image'')))
   \<and> rejects_field ''image'' (fst (updateMovie_A (validator_isURL rest) boot fault j p ms)) =
      (p ''image'' \<noteq> Undefined \<and> \<not> validator_isURL rest (toString (p ''image'')))
   \<and> rejects_field ''image'' (fst (updateMovie_B (validator_isURL rest) boot fault j p ms)) =
      (p ''image'' \<noteq> Undefined \<and> \<not> validator_isURL rest (toString (p ''image'')))
   \<and> (p ''image'' = Undefined \<longrightarrow>
        (validationResult (validator_isURL rest) (createRules_B boot) p = []) = core_fields_valid boot p
        \<and> (validationResult (validator_isURL rest) (updateRules_B boot) p = []) = core_fields_valid boot p)
   \<and> validator_isURL rest ''img.example/arrival.png''
   \<and> validator_isURL rest ''https://img.example/arrival.png''
   \<and> \<not> validator_isURL rest []
   \<and> \<not> validator_isURL rest ''poster''"
proof -
  have absent: "p ''image'' = Undefined \<longrightarrow>
        (validationResult (validator_isURL rest) (createRules_B boot) p = []) = core_fields_valid boot p"
    by (simp add: accepts_B core_fields_valid_def)
  have bare: "validator_isURL rest ''img.example/arrival.png''"
    by (simp add: validator_isURL_def url_blank_def is_space_def is_alnum_def is_digit_def is_letter_def
        simple_url_def strip_scheme_def lower_def char_eval simple_host_def label_ok_def tld_ok_def)
  have schemed: "validator_isURL rest ''https://img.example/arrival.png''"
    by (simp add: validator_isURL_def url_blank_def is_space_def is_alnum_def is_digit_def is_letter_def
        simple_url_def strip_scheme_def lower_def char_eval simple_host_def label_ok_def tld_ok_def)
  have word: "\<not> validator_isURL rest ''poster''"
    by (simp add: validator_isURL_def url_blank_def is_space_def is_alnum_def is_digit_def is_letter_def)
  have empty: "\<not> validator_isURL rest []"
    by (simp add: validator_isURL_def)
  show ?thesis
    using absent bare schemed word empty
    by (simp add: rejects_create_A rejects_create_B rejects_update_A rejects_update_B
        names_image_A names_image_B updateRules_A_eq updateRules_B_eq)
qed

theorem image_optional_url_witness:
  "arrival ''image'' = Undefined
   \<and> core_fields_valid boot2025 arrival
   \<and> fst (createMovie_B plain_isURL boot2025 None ''64b7f0a1c2d3e4f5a6b7c8db'' arrival []) =
      Responded \<lparr>status = 201, content = MovieDoc
        \<lparr>oid = ''64b7f0a1c2d3e4f5a6b7c8db'', title = Some ''Arrival'', director = Some ''Villeneuve'',
         releaseYear = Some 2016, genre = Some ''Sci-Fi'', image' = None\<rparr>\<rparr>
   \<and> \<not> rejects_field ''image''
        (fst (createMovie_B plain_isURL boot2025 None ''64b7f0a1c2d3e4f5a6b7c8db'' arrival []))
   \<and> rejects_field ''image''
        (fst (updateMovie_A plain_isURL boot2025 None (oid dune) (arrival(''image'' := Str ''poster'')) [dune]))
   \<and> rejects_field ''image''
        (fst (updateMovie_A plain_isURL boot2025 None (oid dune) (arrival(''image'' := Null)) [dune]))
   \<and> \<not> rejects_field ''image''
        (fst (updateMovie_A plain_isURL boot2025 None (oid dune)
           (arrival(''image'' := Str ''https://img.example/arrival.png'')) [dune]))"
proof -
  have "fst (createMovie_B plain_isURL boot2025 None ''64b7f0a1c2d3e4f5a6b7c8db'' arrival []) =
      Responded \<lparr>status = 201, content = MovieDoc
        \<lparr>oid = ''64b7f0a1c2d3e4f5a6b7c8db'', title = Some ''Arrival'', director = Some ''Villeneuve'',
         releaseYear = Some 2016, genre = Some ''Sci-Fi'', image' = None\<rparr>\<rparr>"
    by (simp add: createMovie_B_def createRules_B_def arrival_def boot2025_def isInt_show_int genres_def
        Movie_save_def Movie_new_def)
  moreover have "core_fields_valid boot2025 arrival"
    by (simp add: core_fields_valid_def arrival_def boot2025_def isInt_show_int genres_def show_int_nonempty)
  ultimately show ?thesis
    using image_optional_url [of "\<lambda>s. False" boot2025 None "''64b7f0a1c2d3e4f5a6b7c8db''" arrival "[]"
        "oid dune"]
      image_optional_url [of "\<lambda>s. False" boot2025 None "''64b7f0a1c2d3e4f5a6b7c8db''"
        "arrival(''image'' := Str ''poster'')" "[dune]" "oid dune"]
      image_optional_url [of "\<lambda>s. False" boot2025 None "''64b7f0a1c2d3e4f5a6b7c8db''"
        "arrival(''image'' := Null)" "[dune]" "oid dune"]
      image_optional_url [of "\<lambda>s. False" boot2025 None "''64b7f0a1c2d3e4f5a6b7c8db''"
        "arrival(''image'' := Str ''https://img.example/arrival.png'')" "[dune]" "oid dune"]
    by (simp add: arrival_def plain_isURL_def)
qed

text \<open>
  Claim C9 as stated fails: an image that is no absolute URL is accepted.  The string
  \<^verbatim>\<open>img.example/arrival.png\<close> has no scheme, and both variants create the record.
\<close>

theorem scheme_less_image_counterexample:
  "\<not> has_scheme ''img.example/arrival.png''
   \<and> fst (createMovie_A plain_isURL boot2025 None ''64b7f0a1c2d3e4f5a6b7c8db''
        (arrival(''image'' := Str ''img.example/arrival.png'')) []) =
      Responded \<lparr>status = 201, content = MovieDoc
        \<lparr>oid = ''64b7f0a1c2d3e4f5a6b7c8db'', title = Some ''Arrival'', director = Some ''Villeneuve'',
         releaseYear = Some 2016, genre = Some ''Sci-Fi'', image' = Some ''img.example/arrival.png''\<rparr>\<rparr>
   \<and> fst (createMovie_B plain_isURL boot2025 None ''64b7f0a1c2d3e4f5a6b7c8db''
        (arrival(''image'' := Str ''img.example/arrival.png'')) []) =
      Responded \<lparr>status = 201, content = MovieDoc
        \<lparr>oid = ''64b7f0a1c2d3e4f5a6b7c8db'', title = Some ''Arrival'', director = Some ''Villeneuve'',
         releaseYear = Some 2016, genre = Some ''Sci-Fi'', image' = Some ''img.example/arrival.png''\<rparr>\<rparr>"
proof -
  have no_scheme: "\<not> has_scheme ''img.example/arrival.png''"
    by (simp add: has_scheme_def)
  have url: "plain_isURL ''img.example/arrival.png''"
    by (simp add: plain_isURL_def validator_isURL_def url_blank_def is_space_def is_alnum_def is_digit_def
        is_letter_def simple_url_def strip_scheme_def lower_def char_eval simple_host_def label_ok_def
        tld_ok_def)
  have valid_A: "validationResult plain_isURL (createRules_A boot2025)
      (arrival(''image'' := Str ''img.example/arrival.png'')) = []"
    by (simp add: createRules_A_def arrival_def boot2025_def isInt_show_int genres_def show_int_nonempty url)
  have valid_B: "validationResult plain_isURL (createRules_B boot2025)
      (arrival(''image'' := Str ''img.example/arrival.png'')) = []"
    by (simp add: createRules_B_def arrival_def boot2025_def isInt_show_int genres_def url)
  have doc: "Movie_new ''64b7f0a1c2d3e4f5a6b7c8db'' (arrival(''image'' := Str ''img.example/arrival.png'')) =
      Inr \<lparr>oid = ''64b7f0a1c2d3e4f5a6b7c8db'', title = Some ''Arrival'', director = Some ''Villeneuve'',
         releaseYear = Some 2016, genre = Some ''Sci-Fi'', image' = Some ''img.example/arrival.png''\<rparr>"
    by (simp add: Movie_new_def arrival_def)
  show ?thesis
    using no_scheme by (simp add: createMovie_A_def createMovie_B_def valid_A valid_B doc Movie_save_def)
qed

subsection \<open>Listing\<close>

lemma match_here_literal:
  "match_here (map Lit t) s = prefix (map canonicalize t) (map canonicalize s)"
proof (induction t arbitrary: s)
  case Nil
  then show ?case by simp
next
  case (Cons a t)
  then show ?case by (cases s) simp_all
qed

lemma rx_test_literal: "rx_test (map Lit t) s = ci_substring t s"
proof (induction s)
  case Nil
  then show ?case by (cases t) (simp_all add: ci_substring_def)
next
  case (Cons c s)
  then show ?case
    by (simp add: ci_substring_def match_here_literal sublist_Cons_right)
qed

lemma map_to_atom_literal: "CHR ''.'' \<notin> set t \<Longrightarrow> map to_atom t = map Lit t"
  by (induction t) (auto simp: to_atom_def)

lemma RegExp_i_plain:
  "plain_pattern t \<Longrightarrow> CHR ''.'' \<notin> set t \<Longrightarrow> RegExp_i engine t = Inr (ci_substring t)"
  by (simp add: RegExp_i_def map_to_atom_literal rx_test_literal fun_eq_iff)

lemma buildFilter_plain:
  assumes "plain_title q"
  shows "buildFilter engine q =
    Inr \<lparr>f_title = (case q ''title'' of None \<Rightarrow> None | Some t \<Rightarrow> if t = [] then None else Some (ci_substring t)),
         f_releaseYear = (case q ''releaseYear'' of None \<Rightarrow> None | Some y \<Rightarrow> if y = [] then None else Some (parseInt y)),
         f_genre = (case q ''genre'' of None \<Rightarrow> None | Some g \<Rightarrow> if g = [] then None else Some g)\<rparr>"
  using assms
  by (auto simp: buildFilter_def plain_title_def RegExp_i_plain split: option.splits)

lemma matches_selected:
  assumes "buildFilter engine q = Inr f" and "plain_title q"
  shows "matches f m = selected q m"
proof -
  have f: "f = \<lparr>f_title = (case q ''title'' of None \<Rightarrow> None | Some t \<Rightarrow> if t = [] then None else Some (ci_substring t)),
         f_releaseYear = (case q ''releaseYear'' of None \<Rightarrow> None | Some y \<Rightarrow> if y = [] then None else Some (parseInt y)),
         f_genre = (case q ''genre'' of None \<Rightarrow> None | Some g \<Rightarrow> if g = [] then None else Some g)\<rparr>"
    using assms(1) buildFilter_plain[OF assms(2), of engine] by simp
  have t: "matches_title (f_title f) m = title_selects (q ''title'') m"
    by (simp add: f matches_title_def title_selects_def split: option.splits)
  have y: "matches_year (f_releaseYear f) m = year_selects (q ''releaseYear'') m"
    by (simp add: f matches_year_def year_selects_def split: option.splits jsnum.splits)
  have g: "matches_genre (f_genre f) m = genre_selects (q ''genre'') m"
    by (simp add: f matches_genre_def genre_selects_def split: option.splits)
  show ?thesis by (simp add: matches_def selected_def t y g)
qed

lemma listMovies_try_plain:
  assumes "plain_title q" and "numeric_year q"
  shows "listMovies_try engine None q ms = Inr \<lparr>status = 200, content = Movies (filter (selected q) ms)\<rparr>"
proof -
  obtain f where f: "buildFilter engine q = Inr f"
    using buildFilter_plain[OF assms(1)] by blast
  have "f_releaseYear f \<noteq> Some NaN"
    using f assms(2) buildFilter_plain[OF assms(1), of engine]
    by (auto simp: numeric_year_def split: option.splits if_splits)
  moreover have "filter (matches f) ms = filter (selected q) ms"
    using matches_selected[OF f assms(1)] by (simp cong: filter_cong)
  ultimately show ?thesis
    by (simp add: listMovies_try_def f Movie_find_def)
qed

lemma listMovies_try_empty:
  "listMovies_try engine None Map.empty ms = Inr \<lparr>status = 200, content = Movies ms\<rparr>"
  by (simp add: listMovies_try_def buildFilter_def Movie_find_def matches_def
      matches_title_def matches_year_def matches_genre_def)

lemma listMovies_try_nan:
  assumes "q ''releaseYear'' = Some y" and "y \<noteq> []" and "parseInt y = NaN"
  shows "listMovies_try engine fault q ms =
     Inl (case buildFilter engine q of Inl e \<Rightarrow> e | Inr f \<Rightarrow> CastError ''Number'' ''NaN'')"
proof (cases "buildFilter engine q")
  case (Inl e)
  then show ?thesis by (simp add: listMovies_try_def)
next
  case (Inr f)
  then have "f_releaseYear f = Some NaN"
    using assms by (auto simp: buildFilter_def split: sum.splits)
  with Inr show ?thesis by (simp add: listMovies_try_def Movie_find_def)
qed

text \<open>
  Claim C2, as amended.  While the database answers, for a request whose \<open>title\<close>
  parameter holds no regular-expression syntax character and whose \<open>releaseYear\<close>
  parameter, when given, starts with an integer: both variants answer 200 with the
  records that meet all of the conditions together, one condition per parameter that
  is present and not empty (title: case-insensitive substring; releaseYear: equal to
  the integer \<^verbatim>\<open>parseInt\<close> reads; genre: the same string); with no parameter
  at all every record is returned.
\<close>

theorem list_filter_conjunctive:
  assumes "plain_title q" and "numeric_year q"
  shows "listMovies_A engine None q ms = Responded \<lparr>status = 200, content = Movies (filter (selected q) ms)\<rparr>
       \<and> listMovies_B engine None q ms = Responded \<lparr>status = 200, content = Movies (filter (selected q) ms)\<rparr>
       \<and> listMovies_A engine None Map.empty ms = Responded \<lparr>status = 200, content = Movies ms\<rparr>
       \<and> listMovies_B engine None Map.empty ms = Responded \<lparr>status = 200, content = Movies ms\<rparr>"
  by (simp add: listMovies_A_def listMovies_B_def listMovies_try_plain[OF assms] listMovies_try_empty)

theorem list_filter_conjunctive_witness:
  "plain_title [''title'' \<mapsto> ''dune'', ''releaseYear'' \<mapsto> ''1984'']
   \<and> numeric_year [''title'' \<mapsto> ''dune'', ''releaseYear'' \<mapsto> ''1984'']
   \<and> listMovies_A refusing_engine None [''title'' \<mapsto> ''dune'', ''releaseYear'' \<mapsto> ''1984''] [dune, dune84] =
       Responded \<lparr>status = 200, content = Movies [dune84]\<rparr>
   \<and> listMovies_B refusing_engine None Map.empty [dune, dune84] =
       Responded \<lparr>status = 200, content = Movies [dune, dune84]\<rparr>"
proof -
  have year: "parseInt ''1984'' = Number 1984"
    by (simp add: parseInt_def parse_magnitude_def is_space_def is_digit_def dec_value_def digit_val_def)
  have plain: "plain_title [''title'' \<mapsto> ''dune'', ''releaseYear'' \<mapsto> ''1984'']"
    by (simp add: plain_title_def plain_pattern_def syntax_char_def)
  have numeric: "numeric_year [''title'' \<mapsto> ''dune'', ''releaseYear'' \<mapsto> ''1984'']"
    by (simp add: numeric_year_def year)
  have out: "\<not> selected [''title'' \<mapsto> ''dune'', ''releaseYear'' \<mapsto> ''1984''] dune"
    by (simp add: selected_def year_selects_def year dune_def)
  have sel: "selected [''title'' \<mapsto> ''dune'', ''releaseYear'' \<mapsto> ''1984''] dune84"
    by (simp add: selected_def title_selects_def year_selects_def genre_selects_def year
        dune84_def ci_substring_def canonicalize_def char_eval sublist_Cons_right)
  show ?thesis
    using list_filter_conjunctive [OF plain numeric, of refusing_engine "[dune, dune84]"] plain numeric
    by (simp add: out sel)
qed

text \<open>
  Claim C2 as stated fails on the title: the parameter is compiled as a regular
  expression, so \<^verbatim>\<open>title=D.ne\<close> selects the record titled Dune, of which
  \<^verbatim>\<open>D.ne\<close> is no substring.
\<close>

theorem title_regex_counterexample:
  "listMovies_A refusing_engine None [''title'' \<mapsto> ''D.ne''] [dune] =
     Responded \<lparr>status = 200, content = Movies [dune]\<rparr>
   \<and> listMovies_B refusing_engine None [''title'' \<mapsto> ''D.ne''] [dune] =
     Responded \<lparr>status = 200, content = Movies [dune]\<rparr>
   \<and> \<not> ci_substring ''D.ne'' ''Dune''
   \<and> filter (selected [''title'' \<mapsto> ''D.ne'']) [dune] = []"
proof -
  have rx: "RegExp_i refusing_engine ''D.ne'' = Inr (rx_test [Lit CHR ''D'', Dot, Lit CHR ''n'', Lit CHR ''e''])"
    by (simp add: RegExp_i_def plain_pattern_def syntax_char_def to_atom_def)
  have hit: "rx_test [Lit CHR ''D'', Dot, Lit CHR ''n'', Lit CHR ''e''] ''Dune''"
    by (simp add: canonicalize_def char_eval)
  have tried: "listMovies_try refusing_engine None [''title'' \<mapsto> ''D.ne''] [dune] =
      Inr \<lparr>status = 200, content = Movies [dune]\<rparr>"
    by (simp add: listMovies_try_def buildFilter_def rx Movie_find_def matches_def matches_title_def
        matches_year_def matches_genre_def hit dune_def)
  have no: "\<not> ci_substring ''D.ne'' ''Dune''"
    by (simp add: ci_substring_def canonicalize_def char_eval sublist_Cons_right)
  have none: "filter (selected [''title'' \<mapsto> ''D.ne'']) [dune] = []"
    using no by (simp add: selected_def title_selects_def dune_def)
  show ?thesis
    using no none by (simp add: listMovies_A_def listMovies_B_def tried)
qed

lemma buildFilter_year:
  assumes "q ''releaseYear'' = Some y" and "y \<noteq> []" and "buildFilter engine q = Inr f"
  shows "f_releaseYear f = Some (parseInt y)"
  using assms by (auto simp: buildFilter_def split: sum.splits)

lemma selected_year:
  assumes "q ''releaseYear'' = Some y" and "y \<noteq> []" and "parseInt y = Number n"
  shows "list_all (\<lambda>m. releaseYear m = Some n) (filter (selected q) ms)"
  using assms by (simp add: list_all_iff selected_def year_selects_def)

text \<open>
  Claim C4, as amended.  A \<open>releaseYear\<close> parameter that is present and not empty
  is never left out of the filter: the filter holds what \<^verbatim>\<open>parseInt\<close> reads from
  it.  When that is \<^verbatim>\<open>NaN\<close> (the parameter does not start with an integer, as
  \<^verbatim>\<open>abc\<close>), the cast of the query fails and the request ends in status 500:
  variant A answers \<^verbatim>\<open>{error: 'Server Error'}\<close>, variant B forwards the error,
  which its error middleware answers with status 500.  When the parameter starts with
  an integer and goes on with other characters (as \<^verbatim>\<open>1984abc\<close>), the request
  succeeds, while the database answers, with the records of that year (here for a
  title without syntax characters).
\<close>

theorem releaseYear_filter_kept:
  assumes "q ''releaseYear'' = Some y" and "y \<noteq> []"
  shows "(buildFilter engine q = Inr f \<longrightarrow> f_releaseYear f = Some (parseInt y))
       \<and> (parseInt y = NaN \<longrightarrow>
            listMovies_A engine fault q ms = Responded \<lparr>status = 500, content = ErrorObj ''Server Error''\<rparr>
            \<and> listMovies_B engine fault q ms =
                Forwarded (case buildFilter engine q of Inl e \<Rightarrow> e | Inr f \<Rightarrow> CastError ''Number'' ''NaN'')
            \<and> reply_status (fst (finish_B ver e (listMovies_B engine fault q ms, ms) w)) = Some 500)
       \<and> (parseInt y = Number n \<and> plain_title q \<longrightarrow>
            listMovies_A engine None q ms = Responded \<lparr>status = 200, content = Movies (filter (selected q) ms)\<rparr>
            \<and> listMovies_B engine None q ms = Responded \<lparr>status = 200, content = Movies (filter (selected q) ms)\<rparr>
            \<and> list_all (\<lambda>m. releaseYear m = Some n) (filter (selected q) ms))"
proof -
  have kept: "buildFilter engine q = Inr f \<longrightarrow> f_releaseYear f = Some (parseInt y)"
    using assms buildFilter_year by blast
  have failing: "parseInt y = NaN \<longrightarrow>
            listMovies_A engine fault q ms = Responded \<lparr>status = 500, content = ErrorObj ''Server Error''\<rparr>
            \<and> listMovies_B engine fault q ms =
                Forwarded (case buildFilter engine q of Inl e \<Rightarrow> e | Inr f \<Rightarrow> CastError ''Number'' ''NaN'')
            \<and> reply_status (fst (finish_B ver e (listMovies_B engine fault q ms, ms) w)) = Some 500"
    using assms listMovies_try_nan[where q = q and y = y and engine = engine and fault = fault and ms = ms]
    by (simp add: listMovies_A_def listMovies_B_def finish_B_def errorHandler_def reply_status_def)
  have reading: "parseInt y = Number n \<and> plain_title q \<longrightarrow>
            listMovies_A engine None q ms = Responded \<lparr>status = 200, content = Movies (filter (selected q) ms)\<rparr>
            \<and> listMovies_B engine None q ms = Responded \<lparr>status = 200, content = Movies (filter (selected q) ms)\<rparr>
            \<and> list_all (\<lambda>m. releaseYear m = Some n) (filter (selected q) ms)"
  proof
    assume h: "parseInt y = Number n \<and> plain_title q"
    then have numeric: "numeric_year q"
      using assms by (simp add: numeric_year_def)
    have plain: "plain_title q"
      using h by simp
    show "listMovies_A engine None q ms = Responded \<lparr>status = 200, content = Movies (filter (selected q) ms)\<rparr>
            \<and> listMovies_B engine None q ms = Responded \<lparr>status = 200, content = Movies (filter (selected q) ms)\<rparr>
            \<and> list_all (\<lambda>m. releaseYear m = Some n) (filter (selected q) ms)"
      using h assms selected_year [of q y n ms]
      by (simp add: listMovies_A_def listMovies_B_def listMovies_try_plain [OF plain numeric])
  qed
  show ?thesis
    using kept failing reading by blast
qed

theorem releaseYear_filter_kept_witness:
  "parseInt ''abc'' = NaN
   \<and> listMovies_A refusing_engine None [''releaseYear'' \<mapsto> ''abc''] [dune, dune84] =
       Responded \<lparr>status = 500, content = ErrorObj ''Server Error''\<rparr>
   \<and> listMovies_B refusing_engine None [''releaseYear'' \<mapsto> ''abc''] [dune, dune84] =
       Forwarded (CastError ''Number'' ''NaN'')
   \<and> parseInt ''1984abc'' = Number 1984
   \<and> plain_title [''releaseYear'' \<mapsto> ''1984abc'']
   \<and> listMovies_A refusing_engine None [''releaseYear'' \<mapsto> ''1984abc''] [dune, dune84] =
       Responded \<lparr>status = 200, content = Movies [dune84]\<rparr>
   \<and> listMovies_B refusing_engine None [''releaseYear'' \<mapsto> ''1984abc''] [dune, dune84] =
       Responded \<lparr>status = 200, content = Movies [dune84]\<rparr>"
proof -
  have nan: "parseInt ''abc'' = NaN"
    by (simp add: parseInt_def parse_magnitude_def is_space_def is_digit_def)
  have year: "parseInt ''1984abc'' = Number 1984"
    by (simp add: parseInt_def parse_magnitude_def is_space_def is_digit_def dec_value_def digit_val_def)
  have plain: "plain_title [''releaseYear'' \<mapsto> ''1984abc'']"
    by (simp add: plain_title_def)
  have filt: "buildFilter refusing_engine [''releaseYear'' \<mapsto> ''abc''] =
      Inr \<lparr>f_title = None, f_releaseYear = Some NaN, f_genre = None\<rparr>"
    by (simp add: buildFilter_def nan)
  have out: "\<not> selected [''releaseYear'' \<mapsto> ''1984abc''] dune"
    by (simp add: selected_def year_selects_def year dune_def)
  have sel: "selected [''releaseYear'' \<mapsto> ''1984abc''] dune84"
    by (simp add: selected_def title_selects_def year_selects_def genre_selects_def year dune84_def)
  show ?thesis
    using nan year plain filt
      releaseYear_filter_kept [of "[''releaseYear'' \<mapsto> ''abc'']" "''abc''" refusing_engine _ None
        "[dune, dune84]"]
      releaseYear_filter_kept [of "[''releaseYear'' \<mapsto> ''1984abc'']" "''1984abc''" refusing_engine _ None
        "[dune, dune84]" _ _ _ 1984]
    by (simp add: out sel)
qed

text \<open>
  Claim C4 as stated fails: with \<^verbatim>\<open>releaseYear=abc\<close> the request does not succeed
  as it does without the parameter, in either variant; with
  \<^verbatim>\<open>releaseYear=1984abc\<close> it succeeds, filtered on 1984.
\<close>

theorem nonnumeric_year_counterexample:
  "listMovies_A refusing_engine None [''releaseYear'' \<mapsto> ''abc''] [dune] =
     Responded \<lparr>status = 500, content = ErrorObj ''Server Error''\<rparr>
   \<and> listMovies_B refusing_engine None [''releaseYear'' \<mapsto> ''abc''] [dune] =
     Forwarded (CastError ''Number'' ''NaN'')
   \<and> listMovies_A refusing_engine None [''releaseYear'' \<mapsto> ''1984abc''] [dune] =
     Responded \<lparr>status = 200, content = Movies []\<rparr>
   \<and> listMovies_B refusing_engine None [''releaseYear'' \<mapsto> ''1984abc''] [dune] =
     Responded \<lparr>status = 200, content = Movies []\<rparr>
   \<and> listMovies_A refusing_engine None Map.empty [dune] =
     Responded \<lparr>status = 200, content = Movies [dune]\<rparr>
   \<and> listMovies_B refusing_engine None Map.empty [dune] =
     Responded \<lparr>status = 200, content = Movies [dune]\<rparr>"
proof -
  have nan: "parseInt ''abc'' = NaN"
    by (simp add: parseInt_def parse_magnitude_def is_space_def is_digit_def)
  have year: "parseInt ''1984abc'' = Number 1984"
    by (simp add: parseInt_def parse_magnitude_def is_space_def is_digit_def dec_value_def digit_val_def)
  have refused: "listMovies_try refusing_engine None [''releaseYear'' \<mapsto> ''abc''] [dune] =
      Inl (CastError ''Number'' ''NaN'')"
    by (simp add: listMovies_try_def buildFilter_def nan Movie_find_def)
  have plain: "plain_title [''releaseYear'' \<mapsto> ''1984abc'']"
    by (simp add: plain_title_def)
  have numeric: "numeric_year [''releaseYear'' \<mapsto> ''1984abc'']"
    by (simp add: numeric_year_def year)
  have out: "\<not> selected [''releaseYear'' \<mapsto> ''1984abc''] dune"
    by (simp add: selected_def year_selects_def year dune_def)
  have filtered: "listMovies_try refusing_engine None [''releaseYear'' \<mapsto> ''1984abc''] [dune] =
      Inr \<lparr>status = 200, content = Movies []\<rparr>"
    using listMovies_try_plain [OF plain numeric, of refusing_engine "[dune]"] by (simp add: out)
  show ?thesis
    by (simp add: listMovies_A_def listMovies_B_def listMovies_try_empty refused filtered)
qed

subsection \<open>Deleting\<close>

lemma findById_Some: "findById k ms = Some m \<Longrightarrow> m \<in> set ms \<and> oid m = k"
  by (induction ms) (auto simp: findById_def split: if_splits)

lemma findById_None: "findById k ms = None \<longleftrightarrow> k \<notin> set (map oid ms)"
  by (induction ms) (auto simp: findById_def)

lemma remove_first_remove1:
  "findById k ms = Some m \<Longrightarrow> remove_first k ms = remove1 m ms"
proof (induction ms)
  case Nil
  then show ?case by (simp add: findById_def)
next
  case (Cons x ms)
  show ?case
  proof (cases "oid x = k")
    case True
    with Cons.prems have "x = m" by (simp add: findById_def)
    with True show ?thesis by simp
  next
    case False
    with Cons.prems have "findById k ms = Some m" by (simp add: findById_def)
    moreover from this have "oid m = k" using findById_Some by blast
    ultimately show ?thesis using False Cons.IH by auto
  qed
qed

lemma remove_first_subset: "set (remove_first k ms) \<subseteq> set ms"
  by (induction ms) auto

lemma remove_first_gone:
  "distinct (map oid ms) \<Longrightarrow> k \<notin> set (map oid (remove_first k ms))"
  by (induction ms) auto

text \<open>
  The identifiers of the collection stay distinct under every handler: \<^verbatim>\<open>save\<close>
  refuses a second document with the same identifier, an update keeps the identifier
  of the document it replaces, a deletion only removes.
\<close>

lemma oid_replace_first:
  "oid m' = k \<Longrightarrow> map oid (replace_first k m' ms) = map oid ms"
  by (induction ms) auto

lemma oid_castUpdate: "castUpdate p = Inr upd \<Longrightarrow> oid (upd m) = oid m"
  by (auto simp: castUpdate_def split: sum.splits)

lemma distinct_remove_first:
  "distinct (map oid ms) \<Longrightarrow> distinct (map oid (remove_first k ms))"
  using remove_first_subset by (induction ms) fastforce+

lemma save_keeps_distinct:
  "distinct (map oid ms) \<Longrightarrow> distinct (map oid (snd (Movie_save fault d ms)))"
  by (auto simp: Movie_save_def split: sum.splits option.splits)

lemma update_keeps_distinct:
  "distinct (map oid ms) \<Longrightarrow> distinct (map oid (snd (Movie_findByIdAndUpdate fault i p ms)))"
  by (auto simp: Movie_findByIdAndUpdate_def oid_replace_first oid_castUpdate
      split: sum.splits option.splits dest: findById_Some)

lemma delete_keeps_distinct:
  "distinct (map oid ms) \<Longrightarrow> distinct (map oid (snd (Movie_findByIdAndDelete fault i ms)))"
  by (auto simp: Movie_findByIdAndDelete_def distinct_remove_first split: sum.splits option.splits)

lemma snd_delete:
  "snd (deleteMovie_A fault i ms) = snd (Movie_findByIdAndDelete fault i ms)"
  "snd (deleteMovie_B fault i ms) = snd (Movie_findByIdAndDelete fault i ms)"
  by (simp_all add: deleteMovie_A_def deleteMovie_B_def split: prod.splits sum.splits option.splits)

lemma handlers_keep_ids_distinct:
  assumes "distinct (map oid ms)"
  shows "distinct (map oid (snd (handle_A isURL engine boot e r p rt ms)))"
    and "distinct (map oid (snd (handle_B isURL engine boot e r p rt ms)))"
proof -
  note keep = save_keeps_distinct [OF assms] update_keeps_distinct [OF assms] delete_keeps_distinct [OF assms]
  show "distinct (map oid (snd (handle_A isURL engine boot e r p rt ms)))"
    by (cases rt) (simp_all add: handle_A_def snd_create snd_update snd_delete keep assms)
  show "distinct (map oid (snd (handle_B isURL engine boot e r p rt ms)))"
    by (cases rt) (simp_all add: handle_B_def snd_create snd_update snd_delete keep assms)
qed

text \<open>
  Claim C5.  In a collection whose identifiers are distinct (the database keeps
  \<^verbatim>\<open>_id\<close> unique, and every handler preserves it, see above), while the database
  answers: deleting the identifier of an existing record answers 200 and removes
  exactly that record; deleting the same identifier again answers 404 and changes
  nothing.  This holds for both variants.
\<close>

theorem delete_twice:
  assumes "distinct (map oid ms)" and "castObjectId i = Inr k" and "findById k ms = Some m"
  shows "deleteMovie_A None i ms = (Responded \<lparr>status = 200, content = Text ''Movie deleted''\<rparr>, remove1 m ms)
       \<and> deleteMovie_A None i (remove1 m ms) = (Responded \<lparr>status = 404, content = Text ''Movie not found''\<rparr>, remove1 m ms)
       \<and> deleteMovie_B None i ms = (Responded \<lparr>status = 200, content = Message ''Movie deleted''\<rparr>, remove1 m ms)
       \<and> deleteMovie_B None i (remove1 m ms) = (Responded \<lparr>status = 404, content = ErrorObj ''Movie not found''\<rparr>, remove1 m ms)
       \<and> set (remove1 m ms) = set ms - {m}"
proof -
  have rm: "remove_first k ms = remove1 m ms"
    using assms(3) by (rule remove_first_remove1)
  have gone: "findById k (remove1 m ms) = None"
    using remove_first_gone[OF assms(1), of k] by (simp add: rm findById_None)
  have dist: "distinct ms"
    using assms(1) by (simp add: distinct_map)
  have first: "Movie_findByIdAndDelete None i ms = (Inr (Some m), remove1 m ms)"
    by (simp add: Movie_findByIdAndDelete_def assms(2,3) rm)
  have second: "Movie_findByIdAndDelete None i (remove1 m ms) = (Inr None, remove1 m ms)"
    by (simp add: Movie_findByIdAndDelete_def assms(2) gone)
  show ?thesis
    using dist by (simp add: deleteMovie_A_def deleteMovie_B_def first second)
qed

theorem delete_twice_witness:
  "distinct (map oid [dune, dune84])
   \<and> castObjectId ''64B7F0A1C2D3E4F5A6B7C8D9'' = Inr (oid dune)
   \<and> findById (oid dune) [dune, dune84] = Some dune
   \<and> deleteMovie_A None ''64B7F0A1C2D3E4F5A6B7C8D9'' [dune, dune84] =
       (Responded \<lparr>status = 200, content = Text ''Movie deleted''\<rparr>, [dune84])
   \<and> deleteMovie_A None ''64B7F0A1C2D3E4F5A6B7C8D9'' [dune84] =
       (Responded \<lparr>status = 404, content = Text ''Movie not found''\<rparr>, [dune84])"
proof -
  have d: "distinct (map oid [dune, dune84])"
    by (simp add: dune_def dune84_def)
  have c: "castObjectId ''64B7F0A1C2D3E4F5A6B7C8D9'' = Inr (oid dune)"
    by (simp add: castObjectId_def isValidObjectId_def is_hex_def is_digit_def lower_def char_eval dune_def)
  have f: "findById (oid dune) [dune, dune84] = Some dune"
    by (simp add: findById_def)
  have r: "remove1 dune [dune, dune84] = [dune84]"
    by simp
  show ?thesis
    using delete_twice [OF d c f] d c f by (simp add: r)
qed

text \<open>
  Claim C6, as amended.  For an identifier that is not a well-formed \<^verbatim>\<open>ObjectId\<close>,
  variant A answers 400 \<^verbatim>\<open>Invalid ID\<close>; variant B forwards the cast error to its
  error middleware, which answers 500 with the error's message.  Neither changes the
  collection.
\<close>

theorem malformed_id_delete:
  assumes "\<not> isValidObjectId i"
  shows "deleteMovie_A fault i ms = (Responded \<lparr>status = 400, content = Text ''Invalid ID''\<rparr>, ms)
       \<and> deleteMovie_B fault i ms = (Forwarded (CastError ''ObjectId'' i), ms)
       \<and> fst (finish_B ver e (deleteMovie_B fault i ms) w) =
           Reply \<lparr>status = 500, content = ErrorMessage ''Server Error'' (''Cast to ObjectId failed for value '' @ i)\<rparr>"
  using assms
  by (simp add: deleteMovie_A_def deleteMovie_B_def Movie_findByIdAndDelete_def castObjectId_def
      finish_B_def errorHandler_def CastError_def)

theorem malformed_id_delete_witness:
  "\<not> isValidObjectId ''abc''
   \<and> deleteMovie_A None ''abc'' [dune] = (Responded \<lparr>status = 400, content = Text ''Invalid ID''\<rparr>, [dune])
   \<and> deleteMovie_B None ''abc'' [dune] = (Forwarded (CastError ''ObjectId'' ''abc''), [dune])"
proof -
  have bad: "\<not> isValidObjectId ''abc''"
    by (simp add: isValidObjectId_def)
  show ?thesis
    using malformed_id_delete [OF bad, of None "[dune]" Express4 quiet empty_world] bad by simp
qed

text \<open>
  Claim C6 as stated fails: for a malformed identifier variant B answers 500, not 404.
\<close>

theorem malformed_id_status_counterexample:
  "fst (app_B Express4 plain_isURL refusing_engine boot2025 quiet
      (request_of ''DELETE'' ''/api/movies/abc'' NoBody) \<lparr>docs = [dune], logfile = []\<rparr>) =
     Reply \<lparr>status = 500, content = ErrorMessage ''Server Error'' ''Cast to ObjectId failed for value abc''\<rparr>
   \<and> fst (app_B Express5 plain_isURL refusing_engine boot2025 quiet
      (request_of ''DELETE'' ''/api/movies/abc'' NoBody) \<lparr>docs = [dune], logfile = []\<rparr>) =
     Reply \<lparr>status = 500, content = ErrorMessage ''Server Error'' ''Cast to ObjectId failed for value abc''\<rparr>"
proof -
  have route: "route_of (request_of ''DELETE'' ''/api/movies/abc'' NoBody) = Some (DeleteMovie ''abc'')"
    by (simp add: route_of_def segments_def lower_def is_get_def Let_def)
  have del: "deleteMovie_B None ''abc'' [dune] = (Forwarded (CastError ''ObjectId'' ''abc''), [dune])"
    by (simp add: deleteMovie_B_def Movie_findByIdAndDelete_def castObjectId_def isValidObjectId_def)
  show ?thesis
    by (simp add: app_B_def route handle_B_def finish_B_def del express_json_def quiet_def
        errorHandler_def CastError_def)
qed

subsection \<open>Errors and unmatched requests\<close>

lemma handle_B_catches: "fst (handle_B isURL engine boot e r p rt ms) \<noteq> Uncaught err"
proof (cases rt)
  case ListMovies
  then show ?thesis
    by (simp add: handle_B_def listMovies_B_def split: sum.splits)
next
  case CreateMovie
  then show ?thesis
    by (simp add: handle_B_def createMovie_B_def Let_def split: prod.splits sum.splits)
next
  case (UpdateMovie i)
  then show ?thesis
    by (simp add: handle_B_def updateMovie_B_def Let_def split: prod.splits sum.splits option.splits)
next
  case (DeleteMovie i)
  then show ?thesis
    by (simp add: handle_B_def deleteMovie_B_def split: prod.splits sum.splits option.splits)
qed (simp_all add: handle_B_def)

lemma create_B_database_failure:
  assumes "validationResult isURL (createRules_B boot) p = []"
  shows "createMovie_B isURL boot (Some err) i p ms = (Forwarded err, ms)"
proof -
  have "isInt (toString (p ''releaseYear'')) 1888 (getFullYear boot)"
    using assms by (simp add: accepts_B)
  then obtain n where "castNumber (p ''releaseYear'') = Inr (Some n)"
    using castNumber_validated by blast
  then show ?thesis
    using assms by (simp add: createMovie_B_def Movie_new_def Movie_save_def)
qed

lemma list_A_database_failure:
  "listMovies_A engine (Some err) q ms = Responded \<lparr>status = 500, content = ErrorObj ''Server Error''\<rparr>"
  by (simp add: listMovies_A_def listMovies_try_def Movie_find_def split: sum.splits)

lemma update_A_database_failure:
  assumes "validationResult isURL (updateRules_A boot) p = []"
  shows "updateMovie_A isURL boot (Some err) i p ms =
     (Responded \<lparr>status = 500, content = ErrorObj ''Server error''\<rparr>, ms)"
  using assms
  by (simp add: updateMovie_A_def Movie_findByIdAndUpdate_def split: sum.splits)

text \<open>
  What variant B does with an error.  Every error a route handler forwards is answered
  by the error middleware: status 500 and the body
  \<^verbatim>\<open>{error: 'Server Error', message}\<close>, where the message is the error's own, or
  \<^verbatim>\<open>Something went wrong\<close> when that is empty; the stack goes to the log and not
  into the answer.  No handler of variant B leaves an error uncaught, and a failure of
  the database while a valid record is created is forwarded.
\<close>

lemma forwarded_error_answered:
  assumes "express_json (req_body r) = Inr p" and "route_of r = Some rt"
    and "handle_B isURL engine boot e r p rt (docs w) = (Forwarded err, ms')"
  shows "app_B ver isURL engine boot e r w =
          (Reply \<lparr>status = 500, content = ErrorMessage ''Server Error''
                    (if message err = [] then ''Something went wrong'' else message err)\<rparr>,
           \<lparr>docs = ms',
            logfile = logfile (logger e r w) @ [''['' @ toISOString (now e) @ ''] ERROR: '' @ stack err @ [CHR 0x0A]]\<rparr>)"
  using assms by (simp add: app_B_def finish_B_def errorHandler_def logger_def)

lemma create_B_answer_on_failure:
  "fst (app_B ver plain_isURL refusing_engine boot2025 (quiet\<lparr>db_fault := Some lost\<rparr>)
        (request_of ''POST'' ''/api/movies'' (JsonBody arrival)) empty_world) =
       Reply \<lparr>status = 500, content = ErrorMessage ''Server Error'' ''connection lost''\<rparr>"
proof -
  have parsed: "express_json (req_body (request_of ''POST'' ''/api/movies'' (JsonBody arrival))) = Inr arrival"
    by (simp add: express_json_def)
  have routed: "route_of (request_of ''POST'' ''/api/movies'' (JsonBody arrival)) = Some CreateMovie"
    by (simp add: route_of_def segments_def lower_def is_get_def Let_def)
  have valid: "validationResult plain_isURL (createRules_B boot2025) arrival = []"
    by (simp add: createRules_B_def arrival_def boot2025_def isInt_show_int genres_def)
  have forwarded: "handle_B plain_isURL refusing_engine boot2025 (quiet\<lparr>db_fault := Some lost\<rparr>)
        (request_of ''POST'' ''/api/movies'' (JsonBody arrival)) arrival CreateMovie (docs empty_world) =
       (Forwarded lost, [])"
    by (simp add: handle_B_def quiet_def empty_world_def create_B_database_failure [OF valid])
  have msg: "message lost = ''connection lost''"
    by (simp add: lost_def)
  show ?thesis
    using forwarded_error_answered [OF parsed routed forwarded, of ver]
    by (simp add: msg)
qed

text \<open>
  Claim C7.  An error a route handler surfaces, a failure of the database during create
  included, is to be caught centrally and answered with a structured 500 that repeats
  the error's message.  Variant B does so (above), and so do, each in its own
  \<^verbatim>\<open>catch\<close>, the list, update and delete handlers of variant A.  The create
  handler of variant A does not: it awaits \<^verbatim>\<open>movie.save()\<close> outside any
  \<^verbatim>\<open>try\<close> (lines 183-186), and variant A registers no error middleware.  For
  the valid body of the scenario and a database that refuses the write, the rejection
  leaves the handler uncaught; under Express 4 no answer is written, under Express 5
  Express answers with its own error page; in neither case does the client get the
  structured answer, which variant B gives for the same request.
\<close>

theorem create_A_save_uncaught:
  "validationResult plain_isURL (createRules_A boot2025) arrival = []
   \<and> message lost = ''connection lost''
   \<and> createMovie_A plain_isURL boot2025 (Some lost) ''64b7f0a1c2d3e4f5a6b7c8db'' arrival [] =
       (Uncaught lost, [])
   \<and> fst (app_A Express4 plain_isURL refusing_engine boot2025 (quiet\<lparr>db_fault := Some lost\<rparr>)
        (request_of ''POST'' ''/api/movies'' (JsonBody arrival)) empty_world) =
       Unhandled lost
   \<and> fst (app_A Express5 plain_isURL refusing_engine boot2025 (quiet\<lparr>db_fault := Some lost\<rparr>)
        (request_of ''POST'' ''/api/movies'' (JsonBody arrival)) empty_world) =
       FrameworkError lost
   \<and> fst (app_B Express4 plain_isURL refusing_engine boot2025 (quiet\<lparr>db_fault := Some lost\<rparr>)
        (request_of ''POST'' ''/api/movies'' (JsonBody arrival)) empty_world) =
       Reply \<lparr>status = 500, content = ErrorMessage ''Server Error'' ''connection lost''\<rparr>
   \<and> fst (app_B Express5 plain_isURL refusing_engine boot2025 (quiet\<lparr>db_fault := Some lost\<rparr>)
        (request_of ''POST'' ''/api/movies'' (JsonBody arrival)) empty_world) =
       Reply \<lparr>status = 500, content = ErrorMessage ''Server Error'' ''connection lost''\<rparr>"
proof -
  have create_route: "route_of (request_of ''POST'' ''/api/movies'' (JsonBody arrival)) = Some CreateMovie"
    by (simp add: route_of_def segments_def lower_def is_get_def Let_def)
  have valid: "validationResult plain_isURL (createRules_A boot2025) arrival = []"
    by (simp add: createRules_A_def arrival_def boot2025_def isInt_show_int genres_def show_int_nonempty)
  have cast: "castNumber (arrival ''releaseYear'') = Inr (Some 2016)"
    by (simp add: arrival_def)
  have create: "createMovie_A plain_isURL boot2025 (Some lost) ''64b7f0a1c2d3e4f5a6b7c8db'' arrival [] =
      (Uncaught lost, [])"
    by (simp add: createMovie_A_def valid Movie_new_def cast Movie_save_def)
  have msg: "message lost = ''connection lost''"
    by (simp add: lost_def)
  have four: "fst (app_A Express4 plain_isURL refusing_engine boot2025 (quiet\<lparr>db_fault := Some lost\<rparr>)
        (request_of ''POST'' ''/api/movies'' (JsonBody arrival)) empty_world) = Unhandled lost"
    by (simp add: app_A_def create_route handle_A_def finish_A_def express_json_def
        create quiet_def empty_world_def)
  have five: "fst (app_A Express5 plain_isURL refusing_engine boot2025 (quiet\<lparr>db_fault := Some lost\<rparr>)
        (request_of ''POST'' ''/api/movies'' (JsonBody arrival)) empty_world) = FrameworkError lost"
    by (simp add: app_A_def create_route handle_A_def finish_A_def express_json_def
        create quiet_def empty_world_def)
  show ?thesis
    using valid msg create four five
      create_B_answer_on_failure [of Express4] create_B_answer_on_failure [of Express5]
    by simp
qed

text \<open>
  Claim C8, as amended.  In variant B, a request whose body \<^verbatim>\<open>express.json()\<close>
  accepts and whose method and path match no route (the path holding no malformed
  percent-encoding, as for every \<open>request\<close>) is answered by the 404 handler:
  status 404 and the body \<^verbatim>\<open>{error: 'Not Found', message}\<close>, the message naming
  the method and the URL of the request.  Nothing but the request log changes.
\<close>

theorem unmatched_request_not_found:
  assumes "express_json (req_body r) = Inr p" and "route_of r = None"
  shows "app_B ver isURL engine boot e r w =
          (Reply \<lparr>status = 404, content = ErrorMessage ''Not Found''
                    (''Route '' @ req_method r @ '' '' @ req_url r @ '' not found'')\<rparr>,
           logger e r w)
       \<and> docs (logger e r w) = docs w"
  using assms by (simp add: app_B_def notFound_def logger_def)

theorem unmatched_request_not_found_witness:
  "express_json (req_body (request_of ''PATCH'' ''/api/movies/1'' NoBody)) = Inr (\<lambda>k. Undefined)
   \<and> route_of (request_of ''PATCH'' ''/api/movies/1'' NoBody) = None
   \<and> fst (app_B Express4 plain_isURL refusing_engine boot2025 quiet
        (request_of ''PATCH'' ''/api/movies/1'' NoBody) empty_world) =
       Reply \<lparr>status = 404, content = ErrorMessage ''Not Found'' ''Route PATCH /api/movies/1 not found''\<rparr>
   \<and> fst (app_B Express5 plain_isURL refusing_engine boot2025 quiet
        (request_of ''PATCH'' ''/api/movies/1'' NoBody) empty_world) =
       Reply \<lparr>status = 404, content = ErrorMessage ''Not Found'' ''Route PATCH /api/movies/1 not found''\<rparr>"
proof -
  have parsed: "express_json (req_body (request_of ''PATCH'' ''/api/movies/1'' NoBody)) = Inr (\<lambda>k. Undefined)"
    by (simp add: express_json_def)
  have unrouted: "route_of (request_of ''PATCH'' ''/api/movies/1'' NoBody) = None"
    by (simp add: route_of_def segments_def lower_def is_get_def Let_def)
  show ?thesis
    using unmatched_request_not_found [OF parsed unrouted, of Express4 plain_isURL refusing_engine boot2025 quiet empty_world]
      unmatched_request_not_found [OF parsed unrouted, of Express5 plain_isURL refusing_engine boot2025 quiet empty_world]
      parsed unrouted
    by simp
qed

text \<open>
  Claim C8 as stated fails: a request that matches no route but carries malformed JSON
  is stopped by \<^verbatim>\<open>express.json()\<close> before the 404 handler and answered with 500 by
  the error middleware.
\<close>

theorem malformed_body_counterexample:
  "route_of (request_of ''POST'' ''/nope'' (BadJson bad_json)) = None
   \<and> fst (app_B Express4 plain_isURL refusing_engine boot2025 quiet
        (request_of ''POST'' ''/nope'' (BadJson bad_json)) empty_world) =
       Reply \<lparr>status = 500, content = ErrorMessage ''Server Error'' ''Unexpected end of JSON input''\<rparr>
   \<and> fst (app_B Express5 plain_isURL refusing_engine boot2025 quiet
        (request_of ''POST'' ''/nope'' (BadJson bad_json)) empty_world) =
       Reply \<lparr>status = 500, content = ErrorMessage ''Server Error'' ''Unexpected end of JSON input''\<rparr>"
proof -
  have unrouted: "route_of (request_of ''POST'' ''/nope'' (BadJson bad_json)) = None"
    by (simp add: route_of_def segments_def lower_def is_get_def Let_def)
  have msg: "message bad_json = ''Unexpected end of JSON input''"
    by (simp add: bad_json_def)
  show ?thesis
    by (simp add: unrouted app_B_def express_json_def errorHandler_def msg)
qed

end
